theory Spec2Isabelle
  imports Main "HOL-Library.Word" "HOL-Library.Sublist"
begin

section \<open>Data model (internal/models, internal/config, migrations)\<close>

text \<open>
  UUIDs are opaque identifiers; \<open>uuid.Nil\<close> is the all-zero one. An instant is the
  number of nanoseconds since the Unix epoch, as a \<open>time.Time\<close> counts it, and a duration
  is a number of nanoseconds, as \<open>time.Duration\<close> is. A call reads one clock, for
  \<open>time.Now()\<close> and for the database's \<open>NOW()\<close> alike; a TIMESTAMP column holds the
  instant as written, its rounding to microseconds is not modelled.
\<close>

type_synonym uuid = nat
type_synonym byte = "8 word"

text \<open>The constants \<open>time.Second\<close>, \<open>time.Minute\<close> and \<open>time.Hour\<close>.\<close>

definition Second :: int where
  "Second = 1000000000"

definition Minute :: int where
  "Minute = 60 * Second"

definition Hour :: int where
  "Hour = 60 * Minute"

definition uuid_Nil :: uuid where
  "uuid_Nil = 0"

text \<open>
  Modelled from the spec: the constants \<open>models.RoleUser\<close> and \<open>models.RoleAdmin\<close>, which
  service.go uses and the models.go under src/ does not declare. Their values are the
  spec's two role names, the ones the CHECK constraint of migration 002 admits.
\<close>

definition RoleUser :: string where
  "RoleUser = ''user''"

definition RoleAdmin :: string where
  "RoleAdmin = ''admin''"

text \<open>
  Table users after migration 002. \<open>Role\<close> is the column that service.go scans into
  \<open>user.Role\<close>; the struct in the models.go under src/ predates it.
\<close>

record User =
  ID :: uuid
  Email :: string
  GoogleID :: "string option"
  Name :: string
  AvatarURL :: "string option"
  Role :: string
  IsActive :: bool
  CreatedAt :: int
  UpdatedAt :: int
  DeletedAt :: "int option"

record RefreshToken =
  ID :: uuid
  UserID :: uuid
  TokenHash :: string
  ExpiresAt :: int
  CreatedAt :: int
  RevokedAt :: "int option"

record AuthAuditLog =
  UserID :: "uuid option"
  Action :: string
  IPAddress :: string
  UserAgent :: string
  CreatedAt :: int

record GoogleUserInfo =
  ID :: string
  Email :: string
  VerifiedEmail :: bool
  Name :: string
  Picture :: string

text \<open>The three tables of migration 001, each in the order its rows are scanned.\<close>

record db =
  users :: "User list"
  refresh_tokens :: "RefreshToken list"
  auth_audit_log :: "AuthAuditLog list"

section \<open>Third-party primitives: RSA keys, JWT serialisation, bcrypt\<close>

text \<open>
  The golang-jwt and crypto/rsa packages are not part of the repository. Their values
  are modelled symbolically: a key pair is identified by a number, the public half of
  pair \<open>n\<close> is \<open>RSAPublicKey n\<close>, and a signature records the method, the private
  key and the signing input (header algorithm and claims) it was made from, so that it
  verifies exactly under the matching public key, method and input.
\<close>

datatype rsa_private_key = RSAPrivateKey nat

datatype rsa_public_key = RSAPublicKey nat

fun Public :: "rsa_private_key \<Rightarrow> rsa_public_key" where
  "Public (RSAPrivateKey n) = RSAPublicKey n"

datatype signing_method =
    HS256 | HS384 | HS512
  | RS256 | RS384 | RS512
  | PS256 | PS384 | PS512
  | ES256 | ES384 | ES512
  | EdDSA | SigningMethodNone

text \<open>pkg/jwt: \<open>Claims\<close> embeds \<open>jwt.RegisteredClaims\<close>; the JSON name \<open>sub\<close> is \<open>UserID\<close>.\<close>

record Claims =
  UserID :: uuid
  Email :: string
  Name :: string
  Issuer :: string
  IssuedAt :: "int option"
  ExpiresAt :: "int option"
  NotBefore :: "int option"

datatype signature =
    RSASig signing_method rsa_private_key signing_method Claims
  | OtherSig string

text \<open>
  A token string splits and decodes into a header algorithm that names a registered
  method, the claims and a signature; or its header names no registered method; or it
  does not decode at all.
\<close>

datatype token_string =
    Compact signing_method Claims signature
  | UnknownAlg string
  | Malformed string

record TokenPair =
  AccessToken :: token_string
  RefreshToken :: string

text \<open>
  bcrypt is a parameter of the model: the hash of a password under a salt (None when
  the library reports an error), and the comparison of a stored hash with a password
  (True when \<open>CompareHashAndPassword\<close> returns nil).
\<close>

record bcrypt =
  GenerateFromPassword :: "string \<Rightarrow> string \<Rightarrow> string option"
  CompareHashAndPassword :: "string \<Rightarrow> string \<Rightarrow> bool"

section \<open>Configuration, environment, errors\<close>

record Config =
  Env :: string
  JWTPrivateKey :: rsa_private_key
  JWTPublicKey :: rsa_public_key
  JWTAccessTokenExpiry :: int
  JWTRefreshTokenExpiry :: int
  AllowedOrigins :: "string list"
  AdminEmails :: "string list"

text \<open>The SQL statements of the service and the handlers, as labels for failure injection.\<close>

datatype stmt =
    SelectUserByGoogleID | InsertUser | UpdateUser
  | SelectRefreshTokens | RevokeToken | SelectUserByID | InsertRefreshToken
  | InsertAuditLog | SetUserActive

datatype error =
    ErrQueryUser | ErrCreateUser | ErrUpdateUser
  | ErrGenerateAccessToken | ErrGenerateRefreshToken | ErrHashRefreshToken
  | ErrStoreRefreshToken
  | ErrQueryRefreshTokens | ErrInvalidRefreshToken | ErrRevokeOldToken
  | ErrUserNotFoundOrInactive
  | ErrRefreshTokenNotFound | ErrExec
  | ErrTokenMalformed | ErrTokenUnverifiable | ErrTokenSignatureInvalid
  | ErrTokenExpired | ErrTokenNotValidYet | ErrInvalidToken
  | ErrUnexpectedSigningMethod
  | ErrRand | ErrBcrypt | ErrSigning
  | ErrExchange | ErrUserInfo

text \<open>
  What one call observes of the world outside the process: the clock, the identifier
  the database generates for an inserted row, which statements fail, for which rows
  \<open>rows.Scan\<close> fails, the bytes \<open>crypto/rand\<close> delivers, the salt bcrypt draws,
  whether RSA signing fails, and the answer of the OAuth provider to an authorization
  code.
\<close>

record env =
  time_Now :: int
  gen_random_uuid :: uuid
  db_fail :: "stmt \<Rightarrow> bool"
  scan_fail :: "uuid \<Rightarrow> bool"
  rand_bytes :: "byte list"
  rand_err :: bool
  bcrypt_salt :: string
  sign_err :: bool
  google_exchange :: "string \<Rightarrow> error + GoogleUserInfo"

section \<open>UserDirectory: Service.CreateOrUpdateUser\<close>

text \<open>\<open>SELECT ... FROM users WHERE google_id = $1 AND deleted_at IS NULL\<close>\<close>

definition select_user_by_google_id :: "User list \<Rightarrow> string \<Rightarrow> User option" where
  "select_user_by_google_id us gid =
     find (\<lambda>u. GoogleID u = Some gid \<and> DeletedAt u = None) us"

text \<open>The primary key and the two UNIQUE columns of table users.\<close>

definition insert_user_violates :: "User list \<Rightarrow> User \<Rightarrow> bool" where
  "insert_user_violates us n =
     (\<exists>u \<in> set us. User.ID u = User.ID n \<or> User.Email u = User.Email n
        \<or> (GoogleID u \<noteq> None \<and> GoogleID u = GoogleID n))"

text \<open>
  The loop \<open>for _, adminEmail := range s.cfg.AdminEmails\<close>, which sets the role to
  admin at the first equal entry and breaks.
\<close>

fun admin_emails_loop :: "string list \<Rightarrow> string \<Rightarrow> string \<Rightarrow> string" where
  "admin_emails_loop [] email role = role"
| "admin_emails_loop (adminEmail # rest) email role =
     (if email = adminEmail then RoleAdmin else admin_emails_loop rest email role)"

text \<open>\<open>UPDATE users SET name, avatar_url, role, updated_at = NOW() WHERE id = $4\<close>\<close>

definition update_user_rows ::
  "User list \<Rightarrow> uuid \<Rightarrow> string \<Rightarrow> string \<Rightarrow> string \<Rightarrow> int \<Rightarrow> User list" where
  "update_user_rows us uid name picture role t =
     map (\<lambda>u. if User.ID u = uid
               then u\<lparr>User.Name := name, AvatarURL := Some picture, Role := role, UpdatedAt := t\<rparr>
               else u) us"

definition CreateOrUpdateUser ::
  "Config \<Rightarrow> env \<Rightarrow> db \<Rightarrow> GoogleUserInfo \<Rightarrow> (error + User) \<times> db" where
  "CreateOrUpdateUser cfg e d googleUserInfo =
     (if db_fail e SelectUserByGoogleID then (Inl ErrQueryUser, d)
      else case select_user_by_google_id (users d) (GoogleUserInfo.ID googleUserInfo) of
        None \<Rightarrow>
          (let initialRole =
                 admin_emails_loop (AdminEmails cfg) (GoogleUserInfo.Email googleUserInfo) RoleUser;
               user = \<lparr>User.ID = gen_random_uuid e,
                       User.Email = GoogleUserInfo.Email googleUserInfo,
                       GoogleID = Some (GoogleUserInfo.ID googleUserInfo),
                       User.Name = GoogleUserInfo.Name googleUserInfo,
                       AvatarURL = Some (Picture googleUserInfo),
                       Role = initialRole, IsActive = True,
                       User.CreatedAt = time_Now e, UpdatedAt = time_Now e,
                       DeletedAt = None\<rparr>
           in if db_fail e InsertUser \<or> insert_user_violates (users d) user
              then (Inl ErrCreateUser, d)
              else (Inr user, d\<lparr>users := users d @ [user]\<rparr>))
      | Some user \<Rightarrow>
          (let role = (if Role user = RoleUser
                       then admin_emails_loop (AdminEmails cfg) (User.Email user) (Role user)
                       else Role user);
               rows = update_user_rows (users d) (User.ID user)
                        (GoogleUserInfo.Name googleUserInfo) (Picture googleUserInfo) role
                        (time_Now e)
           in if db_fail e UpdateUser then (Inl ErrUpdateUser, d)
              else (case find (\<lambda>u. User.ID u = User.ID user) rows of
                      None \<Rightarrow> (Inl ErrUpdateUser, d)
                    | Some updated \<Rightarrow> (Inr updated, d\<lparr>users := rows\<rparr>))))"

section \<open>pkg/jwt: access tokens\<close>

text \<open>
  \<open>token.SignedString(privateKey)\<close> with an RSA method: the signature over the header
  algorithm and the claims, or the library's error.
\<close>

definition SignedString ::
  "env \<Rightarrow> signing_method \<Rightarrow> Claims \<Rightarrow> rsa_private_key \<Rightarrow> error + token_string" where
  "SignedString e m claims privateKey =
     (if sign_err e then Inl ErrSigning
      else Inr (Compact m claims (RSASig m privateKey m claims)))"

text \<open>
  \<open>jwt.NewNumericDate(t)\<close> keeps \<open>t.Truncate(jwt.TimePrecision)\<close>, and the precision is
  one second: a NumericDate is the number of whole seconds since the epoch, rounded
  towards the past. \<open>NumericDate_Time\<close> is the instant a NumericDate stands for.
\<close>

definition NewNumericDate :: "int \<Rightarrow> int" where
  "NewNumericDate t = t div Second"

definition NumericDate_Time :: "int \<Rightarrow> int" where
  "NumericDate_Time s = s * Second"

text \<open>
  \<open>expiry\<close> is the \<open>time.Duration\<close> of the configuration, in nanoseconds; the two
  timestamps are truncated one by one.
\<close>

definition GenerateAccessToken ::
  "env \<Rightarrow> uuid \<Rightarrow> string \<Rightarrow> string \<Rightarrow> rsa_private_key \<Rightarrow> int \<Rightarrow> error + token_string" where
  "GenerateAccessToken e userID email name privateKey expiry =
     (let now = time_Now e;
          claims = \<lparr>Claims.UserID = userID, Claims.Email = email, Claims.Name = name,
                    Issuer = ''auth-service'',
                    IssuedAt = Some (NewNumericDate now),
                    Claims.ExpiresAt = Some (NewNumericDate (now + expiry)),
                    NotBefore = None\<rparr>
      in SignedString e RS256 claims privateKey)"

text \<open>The type assertion \<open>token.Method.(*jwt.SigningMethodRSA)\<close>: RS256, RS384, RS512.\<close>

definition SigningMethodRSA :: "signing_method \<Rightarrow> bool" where
  "SigningMethodRSA m = (m = RS256 \<or> m = RS384 \<or> m = RS512)"

text \<open>\<open>Method.Verify\<close> for a key function that returns an RSA public key.\<close>

definition method_Verify ::
  "signing_method \<Rightarrow> Claims \<Rightarrow> signature \<Rightarrow> rsa_public_key \<Rightarrow> bool" where
  "method_Verify m claims sig key =
     (case sig of
        RSASig m' k alg content \<Rightarrow>
          SigningMethodRSA m \<and> m' = m \<and> Public k = key \<and> alg = m \<and> content = claims
      | OtherSig _ \<Rightarrow> False)"

text \<open>
  The default validator of golang-jwt v5: the instant of an expiry in the claims must
  lie strictly after the current time (\<open>now.Before(exp.Time)\<close>), that of a not-before
  must not; the issued-at is not checked.
\<close>

definition Validate :: "int \<Rightarrow> Claims \<Rightarrow> error option" where
  "Validate now claims =
     (if (case Claims.ExpiresAt claims of
            None \<Rightarrow> False
          | Some exp \<Rightarrow> \<not> now < NumericDate_Time exp)
      then Some ErrTokenExpired
      else if (case NotBefore claims of
                 None \<Rightarrow> False
               | Some nbf \<Rightarrow> now < NumericDate_Time nbf)
      then Some ErrTokenNotValidYet
      else None)"

text \<open>
  \<open>jwt.ParseWithClaims\<close>: decode, ask the key function for the key, verify the
  signature, validate the claims. The result carries the claims and \<open>token.Valid\<close>.
\<close>

definition ParseWithClaims ::
  "int \<Rightarrow> token_string \<Rightarrow> (signing_method \<Rightarrow> error + rsa_public_key)
     \<Rightarrow> error + (Claims \<times> bool)" where
  "ParseWithClaims now tokenString keyFunc =
     (case tokenString of
        Malformed _ \<Rightarrow> Inl ErrTokenMalformed
      | UnknownAlg _ \<Rightarrow> Inl ErrTokenUnverifiable
      | Compact alg claims sig \<Rightarrow>
          (case keyFunc alg of
             Inl _ \<Rightarrow> Inl ErrTokenUnverifiable
           | Inr key \<Rightarrow>
               if \<not> method_Verify alg claims sig key then Inl ErrTokenSignatureInvalid
               else (case Validate now claims of
                       Some err \<Rightarrow> Inl err
                     | None \<Rightarrow> Inr (claims, True))))"

definition ValidateAccessToken ::
  "int \<Rightarrow> token_string \<Rightarrow> rsa_public_key \<Rightarrow> error + Claims" where
  "ValidateAccessToken now tokenString publicKey =
     (case ParseWithClaims now tokenString
             (\<lambda>method. if \<not> SigningMethodRSA method then Inl ErrUnexpectedSigningMethod
                        else Inr publicKey) of
        Inl err \<Rightarrow> Inl err
      | Inr (claims, valid) \<Rightarrow> if valid then Inr claims else Inl ErrInvalidToken)"

section \<open>pkg/jwt: refresh tokens\<close>

text \<open>
  \<open>rand.Read(b)\<close> on a zeroed buffer of \<open>n\<close> bytes: the buffer afterwards, and whether
  an error was returned.
\<close>

definition rand_Read :: "env \<Rightarrow> nat \<Rightarrow> byte list \<times> bool" where
  "rand_Read e n = (take n (rand_bytes e @ replicate n 0), rand_err e)"

text \<open>\<open>base64.URLEncoding\<close>: the URL-safe alphabet, with padding.\<close>

definition encodeURL :: string where
  "encodeURL = ''ABCDEFGHIJKLMNOPQRSTUVWXYZabcdefghijklmnopqrstuvwxyz0123456789-_''"

definition enc :: "nat \<Rightarrow> char" where
  "enc i = encodeURL ! i"

fun EncodeToString :: "byte list \<Rightarrow> string" where
  "EncodeToString (a # b # c # rest) =
     (let n = unat a * 65536 + unat b * 256 + unat c
      in enc (n div 262144) # enc (n div 4096 mod 64) # enc (n div 64 mod 64)
           # enc (n mod 64) # EncodeToString rest)"
| "EncodeToString [a, b] =
     (let n = unat a * 1024 + unat b * 4
      in [enc (n div 4096), enc (n div 64 mod 64), enc (n mod 64), CHR ''=''])"
| "EncodeToString [a] =
     (let n = unat a * 16
      in [enc (n div 64), enc (n mod 64), CHR ''='', CHR ''=''])"
| "EncodeToString [] = []"

definition GenerateRefreshToken :: "env \<Rightarrow> error + string" where
  "GenerateRefreshToken e =
     (case rand_Read e 32 of
        (b, err) \<Rightarrow> if err then Inl ErrRand else Inr (EncodeToString b))"

definition HashRefreshToken :: "bcrypt \<Rightarrow> env \<Rightarrow> string \<Rightarrow> error + string" where
  "HashRefreshToken bc e token =
     (case GenerateFromPassword bc (bcrypt_salt e) token of
        None \<Rightarrow> Inl ErrBcrypt
      | Some hash \<Rightarrow> Inr hash)"

text \<open>True when \<open>CompareRefreshToken\<close> returns nil.\<close>

definition CompareRefreshToken :: "bcrypt \<Rightarrow> string \<Rightarrow> string \<Rightarrow> bool" where
  "CompareRefreshToken bc hash token = CompareHashAndPassword bc hash token"

section \<open>TokenIssuer: Service.GenerateTokens\<close>

text \<open>
  Table refresh_tokens: primary key, UNIQUE token_hash, and the foreign key to users.
\<close>

definition insert_refresh_token_violates :: "db \<Rightarrow> RefreshToken \<Rightarrow> bool" where
  "insert_refresh_token_violates d n =
     ((\<exists>rt \<in> set (refresh_tokens d).
          RefreshToken.ID rt = RefreshToken.ID n \<or> TokenHash rt = TokenHash n)
      \<or> \<not> (\<exists>u \<in> set (users d). User.ID u = RefreshToken.UserID n))"

text \<open>
  service.go passes \<open>user.Role\<close> as a fourth argument; \<open>GenerateAccessToken\<close> as it is in
  pkg/jwt takes no role, and none is put into the claims.
\<close>

definition GenerateTokens ::
  "bcrypt \<Rightarrow> Config \<Rightarrow> env \<Rightarrow> db \<Rightarrow> User \<Rightarrow> (error + TokenPair) \<times> db" where
  "GenerateTokens bc cfg e d user =
     (case GenerateAccessToken e (User.ID user) (User.Email user) (User.Name user)
             (JWTPrivateKey cfg) (JWTAccessTokenExpiry cfg) of
        Inl _ \<Rightarrow> (Inl ErrGenerateAccessToken, d)
      | Inr accessToken \<Rightarrow>
          (case GenerateRefreshToken e of
             Inl _ \<Rightarrow> (Inl ErrGenerateRefreshToken, d)
           | Inr refreshToken \<Rightarrow>
               (case HashRefreshToken bc e refreshToken of
                  Inl _ \<Rightarrow> (Inl ErrHashRefreshToken, d)
                | Inr tokenHash \<Rightarrow>
                    (let row = \<lparr>RefreshToken.ID = gen_random_uuid e,
                                RefreshToken.UserID = User.ID user,
                                TokenHash = tokenHash,
                                RefreshToken.ExpiresAt = time_Now e + JWTRefreshTokenExpiry cfg,
                                RefreshToken.CreatedAt = time_Now e,
                                RevokedAt = None\<rparr>
                     in if db_fail e InsertRefreshToken \<or> insert_refresh_token_violates d row
                        then (Inl ErrStoreRefreshToken, d)
                        else (Inr \<lparr>AccessToken = accessToken, RefreshToken = refreshToken\<rparr>,
                              d\<lparr>refresh_tokens := refresh_tokens d @ [row]\<rparr>)))))"

section \<open>TokenRotator: Service.RefreshAccessToken\<close>

text \<open>
  \<open>SELECT ... FROM refresh_tokens WHERE revoked_at IS NULL AND expires_at > NOW()\<close>
\<close>

definition select_valid_refresh_tokens :: "RefreshToken list \<Rightarrow> int \<Rightarrow> RefreshToken list" where
  "select_valid_refresh_tokens ts t =
     filter (\<lambda>rt. RevokedAt rt = None \<and> t < RefreshToken.ExpiresAt rt) ts"

text \<open>
  The loop over \<open>rows.Next()\<close>: a row that fails to scan is skipped, the first row whose
  hash compares equal to the presented token ends the loop.
\<close>

fun match_loop ::
  "bcrypt \<Rightarrow> env \<Rightarrow> RefreshToken list \<Rightarrow> string \<Rightarrow> RefreshToken option" where
  "match_loop bc e [] refreshToken = None"
| "match_loop bc e (rt # rows) refreshToken =
     (if scan_fail e (RefreshToken.ID rt) then match_loop bc e rows refreshToken
      else if CompareRefreshToken bc (TokenHash rt) refreshToken then Some rt
      else match_loop bc e rows refreshToken)"

text \<open>\<open>UPDATE refresh_tokens SET revoked_at = NOW() WHERE id = $1\<close>\<close>

definition revoke_rows :: "RefreshToken list \<Rightarrow> uuid \<Rightarrow> int \<Rightarrow> RefreshToken list" where
  "revoke_rows ts tid t =
     map (\<lambda>rt. if RefreshToken.ID rt = tid then rt\<lparr>RevokedAt := Some t\<rparr> else rt) ts"

text \<open>
  \<open>SELECT ... FROM users WHERE id = $1 AND is_active = true AND deleted_at IS NULL\<close>
\<close>

definition select_active_user :: "User list \<Rightarrow> uuid \<Rightarrow> User option" where
  "select_active_user us uid =
     find (\<lambda>u. User.ID u = uid \<and> IsActive u \<and> DeletedAt u = None) us"

definition RefreshAccessToken ::
  "bcrypt \<Rightarrow> Config \<Rightarrow> env \<Rightarrow> db \<Rightarrow> string \<Rightarrow> (error + TokenPair) \<times> db" where
  "RefreshAccessToken bc cfg e d refreshToken =
     (if db_fail e SelectRefreshTokens then (Inl ErrQueryRefreshTokens, d)
      else case match_loop bc e (select_valid_refresh_tokens (refresh_tokens d) (time_Now e))
                  refreshToken of
        None \<Rightarrow> (Inl ErrInvalidRefreshToken, d)
      | Some tokenRecord \<Rightarrow>
          if db_fail e RevokeToken then (Inl ErrRevokeOldToken, d)
          else (let d1 = d\<lparr>refresh_tokens :=
                            revoke_rows (refresh_tokens d) (RefreshToken.ID tokenRecord)
                              (time_Now e)\<rparr>
                in if db_fail e SelectUserByID then (Inl ErrUserNotFoundOrInactive, d1)
                   else (case select_active_user (users d1) (RefreshToken.UserID tokenRecord) of
                           None \<Rightarrow> (Inl ErrUserNotFoundOrInactive, d1)
                         | Some user \<Rightarrow> GenerateTokens bc cfg e d1 user)))"

text \<open>
  The same function as the statements a concurrent caller can be interleaved between:
  the scan up to the check of \<open>tokenRecord\<close>, and the rest, which runs on whatever the
  tables hold by then.
\<close>

definition RefreshAccessToken_scan ::
  "bcrypt \<Rightarrow> env \<Rightarrow> db \<Rightarrow> string \<Rightarrow> error + RefreshToken" where
  "RefreshAccessToken_scan bc e d refreshToken =
     (if db_fail e SelectRefreshTokens then Inl ErrQueryRefreshTokens
      else case match_loop bc e (select_valid_refresh_tokens (refresh_tokens d) (time_Now e))
                  refreshToken of
        None \<Rightarrow> Inl ErrInvalidRefreshToken
      | Some tokenRecord \<Rightarrow> Inr tokenRecord)"

definition RefreshAccessToken_rest ::
  "bcrypt \<Rightarrow> Config \<Rightarrow> env \<Rightarrow> db \<Rightarrow> RefreshToken \<Rightarrow> (error + TokenPair) \<times> db" where
  "RefreshAccessToken_rest bc cfg e d tokenRecord =
     (if db_fail e RevokeToken then (Inl ErrRevokeOldToken, d)
      else (let d1 = d\<lparr>refresh_tokens :=
                        revoke_rows (refresh_tokens d) (RefreshToken.ID tokenRecord)
                          (time_Now e)\<rparr>
            in if db_fail e SelectUserByID then (Inl ErrUserNotFoundOrInactive, d1)
               else (case select_active_user (users d1) (RefreshToken.UserID tokenRecord) of
                       None \<Rightarrow> (Inl ErrUserNotFoundOrInactive, d1)
                     | Some user \<Rightarrow> GenerateTokens bc cfg e d1 user)))"

text \<open>
  Two calls with the scans of both before the rest of either: the schedule
  scan 1, scan 2, rest 1, rest 2.
\<close>

definition RefreshAccessToken_interleaved ::
  "bcrypt \<Rightarrow> Config \<Rightarrow> env \<Rightarrow> env \<Rightarrow> db \<Rightarrow> string \<Rightarrow> string
     \<Rightarrow> (error + TokenPair) \<times> (error + TokenPair) \<times> db" where
  "RefreshAccessToken_interleaved bc cfg e1 e2 d refreshToken1 refreshToken2 =
     (let s1 = RefreshAccessToken_scan bc e1 d refreshToken1;
          s2 = RefreshAccessToken_scan bc e2 d refreshToken2;
          (r1, d1) = (case s1 of Inl err \<Rightarrow> (Inl err, d)
                      | Inr tokenRecord \<Rightarrow> RefreshAccessToken_rest bc cfg e1 d tokenRecord);
          (r2, d2) = (case s2 of Inl err \<Rightarrow> (Inl err, d1)
                      | Inr tokenRecord \<Rightarrow> RefreshAccessToken_rest bc cfg e2 d1 tokenRecord)
      in (r1, r2, d2))"

section \<open>Revocation: Service.RevokeRefreshToken\<close>

text \<open>The loop of \<open>RevokeRefreshToken\<close>; \<open>tokenID\<close> is \<open>uuid.Nil\<close> until a row matches.\<close>

fun revoke_match_loop ::
  "bcrypt \<Rightarrow> env \<Rightarrow> RefreshToken list \<Rightarrow> string \<Rightarrow> uuid \<Rightarrow> uuid" where
  "revoke_match_loop bc e [] refreshToken tokenID = tokenID"
| "revoke_match_loop bc e (rt # rows) refreshToken tokenID =
     (if scan_fail e (RefreshToken.ID rt) then revoke_match_loop bc e rows refreshToken tokenID
      else if CompareRefreshToken bc (TokenHash rt) refreshToken then RefreshToken.ID rt
      else revoke_match_loop bc e rows refreshToken tokenID)"

definition RevokeRefreshToken ::
  "bcrypt \<Rightarrow> env \<Rightarrow> db \<Rightarrow> string \<Rightarrow> error option \<times> db" where
  "RevokeRefreshToken bc e d refreshToken =
     (if db_fail e SelectRefreshTokens then (Some ErrQueryRefreshTokens, d)
      else (let tokenID = revoke_match_loop bc e
                            (select_valid_refresh_tokens (refresh_tokens d) (time_Now e))
                            refreshToken uuid_Nil
            in if tokenID = uuid_Nil then (Some ErrRefreshTokenNotFound, d)
               else if db_fail e RevokeToken then (Some ErrExec, d)
               else (None, d\<lparr>refresh_tokens :=
                               revoke_rows (refresh_tokens d) tokenID (time_Now e)\<rparr>)))"

text \<open>\<open>LogAuthEvent\<close> discards the result of its INSERT.\<close>

definition LogAuthEvent ::
  "env \<Rightarrow> db \<Rightarrow> uuid option \<Rightarrow> string \<Rightarrow> string \<Rightarrow> string \<Rightarrow> db" where
  "LogAuthEvent e d userID action ipAddress userAgent =
     (if db_fail e InsertAuditLog then d
      else d\<lparr>auth_audit_log := auth_audit_log d @
               [\<lparr>AuthAuditLog.UserID = userID, Action = action, IPAddress = ipAddress,
                 UserAgent = userAgent, AuthAuditLog.CreatedAt = time_Now e\<rparr>]\<rparr>)"

section \<open>HTTP boundary: internal/handlers\<close>

datatype same_site = SameSiteDefaultMode | SameSiteLaxMode | SameSiteStrictMode

record Cookie =
  Name :: string
  Value :: string
  Expires :: int
  HttpOnly :: bool
  Secure :: bool
  SameSite :: same_site
  Path :: string

text \<open>
  The DER bytes of a key are kept symbolic: the PKCS#1 structure of an RSA public key, the
  PKIX SubjectPublicKeyInfo that wraps one, a certificate for one, or other bytes. A PEM
  text is its block type and its bytes. A redirect target is the provider's authorization
  URL for a state, or the application callback
  \<open>redirectURI + "/auth/callback?access_token=" + token\<close>.
\<close>

datatype der =
    PKCS1PublicKeyDER rsa_public_key
  | PKIXPublicKeyDER rsa_public_key
  | CertificateDER rsa_public_key
  | OtherDER string

datatype location = AuthCodeURL string | AppCallback string token_string

datatype body = NoBody | Text string | Json "(string \<times> string) list" | Pem string der

record response =
  Status :: nat
  SetCookies :: "Cookie list"
  Location :: "location option"
  Body :: body

record request =
  query :: "(string \<times> string) list"
  cookies :: "(string \<times> string) list"
  RemoteAddr :: string
  UserAgent :: string
  ctx_UserID :: "uuid option"

text \<open>\<open>r.URL.Query().Get(key)\<close>: the first value of the key, or the empty string.\<close>

definition Query_Get :: "request \<Rightarrow> string \<Rightarrow> string" where
  "Query_Get r key = (case map_of (query r) key of None \<Rightarrow> [] | Some v \<Rightarrow> v)"

text \<open>\<open>r.Cookie(name)\<close>: the value of the cookie, or None for \<open>http.ErrNoCookie\<close>.\<close>

definition request_Cookie :: "request \<Rightarrow> string \<Rightarrow> string option" where
  "request_Cookie r name = map_of (cookies r) name"

text \<open>\<open>http.Error\<close>, on a response whose headers already hold the given cookies.\<close>

definition http_Error :: "Cookie list \<Rightarrow> string \<Rightarrow> nat \<Rightarrow> response" where
  "http_Error cs msg code = \<lparr>Status = code, SetCookies = cs, Location = None, Body = Text msg\<rparr>"

definition HasPrefix :: "string \<Rightarrow> string \<Rightarrow> bool" where
  "HasPrefix s pre = prefix pre s"

text \<open>The loop over \<open>h.cfg.AllowedOrigins\<close> in \<open>GoogleLogin\<close>.\<close>

fun valid_redirect_loop :: "string list \<Rightarrow> string \<Rightarrow> bool" where
  "valid_redirect_loop [] redirectURI = False"
| "valid_redirect_loop (origin # rest) redirectURI =
     (if redirectURI = origin \<or> HasPrefix redirectURI (origin @ ''/'') then True
      else valid_redirect_loop rest redirectURI)"

text \<open>
  \<open>GoogleLogin\<close>. Indexing an empty \<open>AllowedOrigins\<close> panics: the result is then None.
\<close>

definition GoogleLogin :: "Config \<Rightarrow> env \<Rightarrow> request \<Rightarrow> response option" where
  "GoogleLogin cfg e r =
     (let redirectURI = Query_Get r ''redirect_uri''
      in if redirectURI = [] \<and> AllowedOrigins cfg = [] then None
         else (let redirectURI = (if redirectURI = [] then AllowedOrigins cfg ! 0
                                  else redirectURI);
                   validRedirect = valid_redirect_loop (AllowedOrigins cfg) redirectURI
               in if \<not> validRedirect then Some (http_Error [] ''Invalid redirect_uri'' 400)
                  else (let state = EncodeToString (fst (rand_Read e 16))
                        in Some \<lparr>Status = 307,
                                 SetCookies =
                                   [\<lparr>Name = ''oauth_state'', Value = state,
                                     Expires = time_Now e + 10 * Minute, HttpOnly = True,
                                     Secure = (Env cfg = ''production''),
                                     SameSite = SameSiteLaxMode, Path = ''/''\<rparr>,
                                    \<lparr>Name = ''oauth_redirect'', Value = redirectURI,
                                     Expires = time_Now e + 10 * Minute, HttpOnly = True,
                                     Secure = (Env cfg = ''production''),
                                     SameSite = SameSiteLaxMode, Path = ''/''\<rparr>],
                                 Location = Some (AuthCodeURL state),
                                 Body = NoBody\<rparr>)))"

definition clear_cookie :: "env \<Rightarrow> string \<Rightarrow> Cookie" where
  "clear_cookie e name =
     \<lparr>Name = name, Value = [], Expires = time_Now e - 1 * Hour, HttpOnly = True,
      Secure = False, SameSite = SameSiteDefaultMode, Path = ''/''\<rparr>"

definition ExchangeGoogleCode :: "env \<Rightarrow> string \<Rightarrow> error + GoogleUserInfo" where
  "ExchangeGoogleCode e code = google_exchange e code"

definition GoogleCallback ::
  "bcrypt \<Rightarrow> Config \<Rightarrow> env \<Rightarrow> db \<Rightarrow> request \<Rightarrow> response \<times> db" where
  "GoogleCallback bc cfg e d r =
     (case request_Cookie r ''oauth_state'' of
        None \<Rightarrow> (http_Error [] ''State cookie not found'' 400, d)
      | Some stateCookie \<Rightarrow>
          if Query_Get r ''state'' \<noteq> stateCookie
          then (http_Error [] ''Invalid state parameter'' 400, d)
          else (case request_Cookie r ''oauth_redirect'' of
             None \<Rightarrow> (http_Error [] ''Redirect URI cookie not found'' 400, d)
           | Some redirectURI \<Rightarrow>
               (let cleared = [clear_cookie e ''oauth_state'', clear_cookie e ''oauth_redirect''];
                    code = Query_Get r ''code''
                in if code = [] then (http_Error cleared ''Code not found'' 400, d)
                   else (case ExchangeGoogleCode e code of
                      Inl err \<Rightarrow> (http_Error cleared ''Failed to exchange code'' 500, d)
                    | Inr userInfo \<Rightarrow>
                        (case CreateOrUpdateUser cfg e d userInfo of
                           (Inl err, d1) \<Rightarrow> (http_Error cleared ''Failed to create user'' 500, d1)
                         | (Inr user, d1) \<Rightarrow>
                             if \<not> IsActive user
                             then (http_Error cleared ''User account is inactive'' 403, d1)
                             else (case GenerateTokens bc cfg e d1 user of
                                (Inl err, d2) \<Rightarrow>
                                  (http_Error cleared ''Failed to generate tokens'' 500, d2)
                              | (Inr tokens, d2) \<Rightarrow>
                                  (\<lparr>Status = 307,
                                    SetCookies = cleared @
                                      [\<lparr>Name = ''refresh_token'',
                                        Value = RefreshToken tokens,
                                        Expires = time_Now e + JWTRefreshTokenExpiry cfg,
                                        HttpOnly = True,
                                        Secure = (Env cfg = ''production''),
                                        SameSite = SameSiteStrictMode, Path = ''/''\<rparr>],
                                    Location = Some (AppCallback redirectURI (AccessToken tokens)),
                                    Body = NoBody\<rparr>,
                                   LogAuthEvent e d2 (Some (User.ID user)) ''LOGIN''
                                     (RemoteAddr r) (UserAgent r))))))))"

text \<open>\<open>Logout\<close> calls \<open>RevokeRefreshToken\<close> as a statement: its error is not looked at.\<close>

definition Logout :: "bcrypt \<Rightarrow> Config \<Rightarrow> env \<Rightarrow> db \<Rightarrow> request \<Rightarrow> response \<times> db" where
  "Logout bc cfg e d r =
     (let d1 = (case request_Cookie r ''refresh_token'' of
                  Some v \<Rightarrow> snd (RevokeRefreshToken bc e d v)
                | None \<Rightarrow> d);
          d2 = (case ctx_UserID r of
                  Some userID \<Rightarrow>
                    LogAuthEvent e d1 (Some userID) ''LOGOUT'' (RemoteAddr r) (UserAgent r)
                | None \<Rightarrow> d1)
      in (\<lparr>Status = 200,
           SetCookies = [(clear_cookie e ''refresh_token'')
                           \<lparr>Secure := (Env cfg = ''production''),
                            SameSite := SameSiteStrictMode\<rparr>],
           Location = None,
           Body = Json [(''message'', ''Logged out successfully'')]\<rparr>, d2))"

text \<open>
  The parsers of crypto/x509 and encoding/pem: each reads its own structure and fails
  on the others.
\<close>

definition MarshalPKCS1PublicKey :: "rsa_public_key \<Rightarrow> der" where
  "MarshalPKCS1PublicKey key = PKCS1PublicKeyDER key"

definition ParsePKIXPublicKey :: "der \<Rightarrow> rsa_public_key option" where
  "ParsePKIXPublicKey bytes = (case bytes of PKIXPublicKeyDER k \<Rightarrow> Some k | _ \<Rightarrow> None)"

definition ParseCertificate :: "der \<Rightarrow> rsa_public_key option" where
  "ParseCertificate bytes = (case bytes of CertificateDER k \<Rightarrow> Some k | _ \<Rightarrow> None)"

definition ParsePKCS1PublicKey :: "der \<Rightarrow> rsa_public_key option" where
  "ParsePKCS1PublicKey bytes = (case bytes of PKCS1PublicKeyDER k \<Rightarrow> Some k | _ \<Rightarrow> None)"

definition pem_Decode :: "body \<Rightarrow> (string \<times> der) option" where
  "pem_Decode b = (case b of Pem ty bytes \<Rightarrow> Some (ty, bytes) | _ \<Rightarrow> None)"

text \<open>The key served is the configured public key, not one derived from the private key.\<close>

definition GetPublicKey :: "Config \<Rightarrow> response" where
  "GetPublicKey cfg =
     (let publicKeyBytes = MarshalPKCS1PublicKey (JWTPublicKey cfg)
      in \<lparr>Status = 200, SetCookies = [], Location = None,
          Body = Pem ''RSA PUBLIC KEY'' publicKeyBytes\<rparr>)"

text \<open>
  What a consumer of \<open>/api/public-key\<close> does with the body. The integration guide uses
  \<open>jwt.ParseRSAPublicKeyFromPEM\<close>: decode the PEM block, try the bytes as a PKIX public
  key, then as a certificate, then as a PKCS#1 public key. The verification of a token
  under the key read follows.
\<close>

definition ParseRSAPublicKeyFromPEM :: "body \<Rightarrow> rsa_public_key option" where
  "ParseRSAPublicKeyFromPEM b =
     (case pem_Decode b of
        None \<Rightarrow> None
      | Some (ty, bytes) \<Rightarrow>
          (case ParsePKIXPublicKey bytes of
             Some k \<Rightarrow> Some k
           | None \<Rightarrow>
               (case ParseCertificate bytes of
                  Some k \<Rightarrow> Some k
                | None \<Rightarrow> ParsePKCS1PublicKey bytes)))"

definition verify_with_exported_key ::
  "int \<Rightarrow> token_string \<Rightarrow> response \<Rightarrow> error + Claims" where
  "verify_with_exported_key now tokenString resp =
     (case ParseRSAPublicKeyFromPEM (Body resp) of
        None \<Rightarrow> Inl ErrTokenUnverifiable
      | Some key \<Rightarrow> ValidateAccessToken now tokenString key)"

text \<open>
  The statements of the user administration handlers that change table users:
  \<open>DeleteUser\<close>, \<open>ActivateUser\<close>, \<open>DeactivateUser\<close> (each \<open>WHERE id = $1 AND
  deleted_at IS NULL\<close>); the result is the status code.
\<close>

definition set_user_rows :: "User list \<Rightarrow> uuid \<Rightarrow> (User \<Rightarrow> User) \<Rightarrow> User list" where
  "set_user_rows us uid f =
     map (\<lambda>u. if User.ID u = uid \<and> DeletedAt u = None then f u else u) us"

definition user_present :: "User list \<Rightarrow> uuid \<Rightarrow> bool" where
  "user_present us uid = (\<exists>u \<in> set us. User.ID u = uid \<and> DeletedAt u = None)"

definition DeleteUser :: "env \<Rightarrow> db \<Rightarrow> uuid \<Rightarrow> nat \<times> db" where
  "DeleteUser e d userID =
     (if db_fail e SetUserActive then (500, d)
      else if \<not> user_present (users d) userID then (404, d)
      else (200, d\<lparr>users := set_user_rows (users d) userID
                      (\<lambda>u. u\<lparr>DeletedAt := Some (time_Now e), IsActive := False\<rparr>)\<rparr>))"

definition ActivateUser :: "env \<Rightarrow> db \<Rightarrow> uuid \<Rightarrow> nat \<times> db" where
  "ActivateUser e d userID =
     (if db_fail e SetUserActive \<or> \<not> user_present (users d) userID then (404, d)
      else (200, d\<lparr>users := set_user_rows (users d) userID
                      (\<lambda>u. u\<lparr>IsActive := True, UpdatedAt := time_Now e\<rparr>)\<rparr>))"

definition DeactivateUser :: "env \<Rightarrow> db \<Rightarrow> uuid \<Rightarrow> nat \<times> db" where
  "DeactivateUser e d userID =
     (if db_fail e SetUserActive \<or> \<not> user_present (users d) userID then (404, d)
      else (200, d\<lparr>users := set_user_rows (users d) userID
                      (\<lambda>u. u\<lparr>IsActive := False, UpdatedAt := time_Now e\<rparr>)\<rparr>))"

text \<open>A history of calls, each with what it observes of the world.\<close>

datatype call =
    CallCreateOrUpdateUser env GoogleUserInfo
  | CallGenerateTokens env User
  | CallRefreshAccessToken env string
  | CallRevokeRefreshToken env string
  | CallLogAuthEvent env "uuid option" string string string
  | CallGoogleCallback env request
  | CallLogout env request
  | CallDeleteUser env uuid
  | CallActivateUser env uuid
  | CallDeactivateUser env uuid

fun run_call :: "bcrypt \<Rightarrow> Config \<Rightarrow> db \<Rightarrow> call \<Rightarrow> db" where
  "run_call bc cfg d (CallCreateOrUpdateUser e info) = snd (CreateOrUpdateUser cfg e d info)"
| "run_call bc cfg d (CallGenerateTokens e user) = snd (GenerateTokens bc cfg e d user)"
| "run_call bc cfg d (CallRefreshAccessToken e tok) = snd (RefreshAccessToken bc cfg e d tok)"
| "run_call bc cfg d (CallRevokeRefreshToken e tok) = snd (RevokeRefreshToken bc e d tok)"
| "run_call bc cfg d (CallLogAuthEvent e uid a ip ua) = LogAuthEvent e d uid a ip ua"
| "run_call bc cfg d (CallGoogleCallback e r) = snd (GoogleCallback bc cfg e d r)"
| "run_call bc cfg d (CallLogout e r) = snd (Logout bc cfg e d r)"
| "run_call bc cfg d (CallDeleteUser e uid) = snd (DeleteUser e d uid)"
| "run_call bc cfg d (CallActivateUser e uid) = snd (ActivateUser e d uid)"
| "run_call bc cfg d (CallDeactivateUser e uid) = snd (DeactivateUser e d uid)"

definition run_calls :: "bcrypt \<Rightarrow> Config \<Rightarrow> db \<Rightarrow> call list \<Rightarrow> db" where
  "run_calls bc cfg d cs = foldl (run_call bc cfg) d cs"

section \<open>Example values\<close>

definition ex_bcrypt :: bcrypt where
  "ex_bcrypt = \<lparr>GenerateFromPassword = (\<lambda>salt pw. Some (salt @ pw)),
                 CompareHashAndPassword = (\<lambda>h pw. drop 2 h = pw)\<rparr>"

text \<open>The configuration of the defaults: access tokens of 15m, refresh tokens of 168h.\<close>

definition ex_cfg :: Config where
  "ex_cfg = \<lparr>Env = ''development'',
              JWTPrivateKey = RSAPrivateKey 1, JWTPublicKey = RSAPublicKey 1,
              JWTAccessTokenExpiry = 900000000000,
              JWTRefreshTokenExpiry = 604800000000000,
              AllowedOrigins = [''http://localhost:3000'', ''http://localhost:5173''],
              AdminEmails = [''root@x.com'']\<rparr>"

definition ex_bytes :: "byte list" where
  "ex_bytes = [1, 2, 3, 4, 5, 6, 7, 8, 9, 10, 11, 12, 13, 14, 15, 16,
               17, 18, 19, 20, 21, 22, 23, 24, 25, 26, 27, 28, 29, 30, 31, 32]"

definition ex_env :: "int \<Rightarrow> uuid \<Rightarrow> env" where
  "ex_env t n = \<lparr>time_Now = t, gen_random_uuid = n,
                  db_fail = (\<lambda>_. False), scan_fail = (\<lambda>_. False),
                  rand_bytes = ex_bytes, rand_err = False, bcrypt_salt = ''s1'',
                  sign_err = False, google_exchange = (\<lambda>_. Inl ErrExchange)\<rparr>"

definition ex_alice :: User where
  "ex_alice = \<lparr>User.ID = 1, User.Email = ''a@x.com'', GoogleID = Some ''g1'',
                User.Name = ''Alice'', AvatarURL = None, Role = ''user'', IsActive = True,
                User.CreatedAt = 0, UpdatedAt = 0, DeletedAt = None\<rparr>"

definition ex_db :: db where
  "ex_db = \<lparr>users = [ex_alice], refresh_tokens = [], auth_audit_log = []\<rparr>"

definition ex_token_row :: RefreshToken where
  "ex_token_row = \<lparr>RefreshToken.ID = 5, RefreshToken.UserID = 1, TokenHash = ''s1tokenA'',
                    RefreshToken.ExpiresAt = 1000, RefreshToken.CreatedAt = 0,
                    RevokedAt = None\<rparr>"

definition ex_db_tok :: db where
  "ex_db_tok = \<lparr>users = [ex_alice], refresh_tokens = [ex_token_row], auth_audit_log = []\<rparr>"

definition ex_claims :: Claims where
  "ex_claims = \<lparr>Claims.UserID = 1, Claims.Email = ''a@x.com'', Claims.Name = ''Alice'',
                 Issuer = ''auth-service'', IssuedAt = Some 0,
                 Claims.ExpiresAt = Some 900, NotBefore = None\<rparr>"

definition ex_pair :: TokenPair where
  "ex_pair = \<lparr>AccessToken = Compact RS256 ex_claims (RSASig RS256 (RSAPrivateKey 1) RS256 ex_claims),
               RefreshToken = ''AQIDBAUGBwgJCgsMDQ4PEBESExQVFhcYGRobHB0eHyA=''\<rparr>"

definition ex_claims_1500ms :: Claims where
  "ex_claims_1500ms = ex_claims\<lparr>IssuedAt := Some 10, Claims.ExpiresAt := Some 12\<rparr>"

definition ex_token_1500ms :: token_string where
  "ex_token_1500ms =
     Compact RS256 ex_claims_1500ms (RSASig RS256 (RSAPrivateKey 1) RS256 ex_claims_1500ms)"

definition ex_claims_ttl0 :: Claims where
  "ex_claims_ttl0 = ex_claims\<lparr>IssuedAt := Some 10, Claims.ExpiresAt := Some 10\<rparr>"

definition ex_token_ttl0 :: token_string where
  "ex_token_ttl0 =
     Compact RS256 ex_claims_ttl0 (RSASig RS256 (RSAPrivateKey 1) RS256 ex_claims_ttl0)"

definition ex_successor_row :: RefreshToken where
  "ex_successor_row =
     \<lparr>RefreshToken.ID = 6, RefreshToken.UserID = 1,
      TokenHash = ''s1AQIDBAUGBwgJCgsMDQ4PEBESExQVFhcYGRobHB0eHyA='',
      RefreshToken.ExpiresAt = 604800000000010, RefreshToken.CreatedAt = 10,
      RevokedAt = None\<rparr>"

definition ex_db_rotated :: db where
  "ex_db_rotated = \<lparr>users = [ex_alice],
                     refresh_tokens = [ex_token_row\<lparr>RevokedAt := Some 10\<rparr>, ex_successor_row],
                     auth_audit_log = []\<rparr>"


definition ex_bytes2 :: "byte list" where
  "ex_bytes2 = [255, 254, 253, 252, 251, 250, 249, 248, 247, 246, 245, 244, 243, 242, 241, 240,
                239, 238, 237, 236, 235, 234, 233, 232, 231, 230, 229, 228, 227, 226, 225, 224]"

definition ex_env_second :: env where
  "ex_env_second = (ex_env 10 7)\<lparr>rand_bytes := ex_bytes2, bcrypt_salt := ''s2''\<rparr>"

definition ex_pair2 :: TokenPair where
  "ex_pair2 = ex_pair\<lparr>RefreshToken := ''__79_Pv6-fj39vX08_Lx8O_u7ezr6uno5-bl5OPi4eA=''\<rparr>"

definition ex_db_rotated_twice :: db where
  "ex_db_rotated_twice =
     \<lparr>users = [ex_alice],
      refresh_tokens =
        [ex_token_row\<lparr>RevokedAt := Some 10\<rparr>, ex_successor_row,
         \<lparr>RefreshToken.ID = 7, RefreshToken.UserID = 1,
          TokenHash = ''s2__79_Pv6-fj39vX08_Lx8O_u7ezr6uno5-bl5OPi4eA='',
          RefreshToken.ExpiresAt = 604800000000010, RefreshToken.CreatedAt = 10,
          RevokedAt = None\<rparr>],
      auth_audit_log = []\<rparr>"

definition ex_env_insert_fails :: env where
  "ex_env_insert_fails = (ex_env 10 6)\<lparr>db_fail := (\<lambda>s. s = InsertRefreshToken)\<rparr>"

definition ex_env_query_fails :: env where
  "ex_env_query_fails = (ex_env 10 6)\<lparr>db_fail := (\<lambda>s. s = SelectRefreshTokens)\<rparr>"

definition ex_env_sign_fails :: env where
  "ex_env_sign_fails = (ex_env 10 6)\<lparr>sign_err := True\<rparr>"

definition ex_db_inactive :: db where
  "ex_db_inactive = \<lparr>users = [ex_alice\<lparr>IsActive := False\<rparr>], refresh_tokens = [ex_token_row],
                      auth_audit_log = []\<rparr>"

definition ex_db_revoked :: db where
  "ex_db_revoked = \<lparr>users = [ex_alice], refresh_tokens = [ex_token_row\<lparr>RevokedAt := Some 10\<rparr>],
                     auth_audit_log = []\<rparr>"

definition ex_db_inactive_revoked :: db where
  "ex_db_inactive_revoked =
     \<lparr>users = [ex_alice\<lparr>IsActive := False\<rparr>],
      refresh_tokens = [ex_token_row\<lparr>RevokedAt := Some 10\<rparr>], auth_audit_log = []\<rparr>"

definition ex_logout_request :: request where
  "ex_logout_request = \<lparr>query = [], cookies = [(''refresh_token'', ''tokenA'')],
                         RemoteAddr = ''10.0.0.1:4000'', UserAgent = ''curl'',
                         ctx_UserID = None\<rparr>"

definition ex_alice_info :: GoogleUserInfo where
  "ex_alice_info = \<lparr>GoogleUserInfo.ID = ''g1'', GoogleUserInfo.Email = ''a@x.com'',
                     VerifiedEmail = True, GoogleUserInfo.Name = ''Alice A'', Picture = ''pic''\<rparr>"

definition ex_env_login :: env where
  "ex_env_login = (ex_env 20 8)\<lparr>google_exchange := (\<lambda>code. Inr ex_alice_info)\<rparr>"

definition ex_callback_request :: request where
  "ex_callback_request =
     \<lparr>query = [(''state'', ''st''), (''code'', ''c0de'')],
      cookies = [(''oauth_state'', ''st''), (''oauth_redirect'', ''http://localhost:3000'')],
      RemoteAddr = ''10.0.0.1:4000'', UserAgent = ''curl'', ctx_UserID = None\<rparr>"

definition ex_alice_inactive :: User where
  "ex_alice_inactive =
     ex_alice\<lparr>User.Name := ''Alice A'', AvatarURL := Some ''pic'', IsActive := False,
              UpdatedAt := 20\<rparr>"

definition ex_db_inactive_login :: db where
  "ex_db_inactive_login = \<lparr>users = [ex_alice_inactive], refresh_tokens = [ex_token_row],
                            auth_audit_log = []\<rparr>"

definition ex_login_request :: request where
  "ex_login_request = \<lparr>query = [(''redirect_uri'', ''http://localhost:5173/app'')], cookies = [],
                        RemoteAddr = ''10.0.0.1:4000'', UserAgent = ''curl'',
                        ctx_UserID = None\<rparr>"

section \<open>Predicates of the properties\<close>

text \<open>
  A presented token identifies at most one record: all rows whose hash compares equal
  to it carry one id.
\<close>

definition raw_unique :: "bcrypt \<Rightarrow> db \<Rightarrow> string \<Rightarrow> bool" where
  "raw_unique bc d raw =
     (\<forall>r1 \<in> set (refresh_tokens d). \<forall>r2 \<in> set (refresh_tokens d).
        CompareRefreshToken bc (TokenHash r1) raw \<and> CompareRefreshToken bc (TokenHash r2) raw
          \<longrightarrow> RefreshToken.ID r1 = RefreshToken.ID r2)"

text \<open>
  The record with the given id and hash is in the table, and every row with that id
  has its revoked timestamp set.
\<close>

definition spent :: "RefreshToken list \<Rightarrow> uuid \<Rightarrow> string \<Rightarrow> bool" where
  "spent ts tid h =
     ((\<exists>rt \<in> set ts. RefreshToken.ID rt = tid \<and> TokenHash rt = h)
      \<and> (\<forall>rt \<in> set ts. RefreshToken.ID rt = tid \<longrightarrow> RevokedAt rt \<noteq> None))"

text \<open>The token carries a signature made with the given RSA private key.\<close>

definition signed_with :: "rsa_private_key \<Rightarrow> token_string \<Rightarrow> bool" where
  "signed_with k tok =
     (case tok of
        Compact alg claims (RSASig m k' alg' claims') \<Rightarrow> k' = k
      | _ \<Rightarrow> False)"

text \<open>The header of the token names one of the RSA PKCS#1 v1.5 methods.\<close>

definition header_RSA :: "token_string \<Rightarrow> bool" where
  "header_RSA tok = (case tok of Compact alg claims sig \<Rightarrow> SigningMethodRSA alg | _ \<Rightarrow> False)"

text \<open>
  The response of \<open>GoogleLogin\<close> for an accepted redirect target: the redirect to the
  provider, with the state and the target in cookies.
\<close>

definition login_redirect :: "Config \<Rightarrow> env \<Rightarrow> string \<Rightarrow> response" where
  "login_redirect cfg e target =
     \<lparr>Status = 307,
      SetCookies =
        [\<lparr>Name = ''oauth_state'', Value = EncodeToString (fst (rand_Read e 16)),
          Expires = time_Now e + 10 * Minute, HttpOnly = True,
          Secure = (Env cfg = ''production''),
          SameSite = SameSiteLaxMode, Path = ''/''\<rparr>,
         \<lparr>Name = ''oauth_redirect'', Value = target,
          Expires = time_Now e + 10 * Minute, HttpOnly = True,
          Secure = (Env cfg = ''production''),
          SameSite = SameSiteLaxMode, Path = ''/''\<rparr>],
      Location = Some (AuthCodeURL (EncodeToString (fst (rand_Read e 16)))),
      Body = NoBody\<rparr>"

text \<open>The response of \<open>Logout\<close>: status 200, the cookie cleared, the success message.\<close>

definition logged_out :: "Config \<Rightarrow> env \<Rightarrow> response" where
  "logged_out cfg e =
     \<lparr>Status = 200,
      SetCookies = [\<lparr>Name = ''refresh_token'', Value = [], Expires = time_Now e - 1 * Hour,
                     HttpOnly = True, Secure = (Env cfg = ''production''),
                     SameSite = SameSiteStrictMode, Path = ''/''\<rparr>],
      Location = None,
      Body = Json [(''message'', ''Logged out successfully'')]\<rparr>"

section \<open>UserDirectory: role assignment\<close>






section \<open>Token lifecycle: effects of the operations\<close>

lemma spent_revoke_rows:
  assumes "spent ts tid h"
  shows "spent (revoke_rows ts i t) tid h"
proof -
  let ?f = "\<lambda>rt. if RefreshToken.ID rt = i then rt\<lparr>RevokedAt := Some t\<rparr> else rt"
  have keep: "\<And>rt. RefreshToken.ID (?f rt) = RefreshToken.ID rt \<and> TokenHash (?f rt) = TokenHash rt
                \<and> (RevokedAt rt \<noteq> None \<longrightarrow> RevokedAt (?f rt) \<noteq> None)"
    by simp
  from assms obtain rt where rt: "rt \<in> set ts" "RefreshToken.ID rt = tid" "TokenHash rt = h"
    by (auto simp: spent_def)
  then have "?f rt \<in> set (revoke_rows ts i t)"
    by (simp add: revoke_rows_def)
  moreover have "RefreshToken.ID (?f rt) = tid \<and> TokenHash (?f rt) = h"
    using rt by simp
  ultimately have ex: "\<exists>x \<in> set (revoke_rows ts i t). RefreshToken.ID x = tid \<and> TokenHash x = h"
    by (rule rev_bexI)
  have "\<forall>x \<in> set (revoke_rows ts i t). RefreshToken.ID x = tid \<longrightarrow> RevokedAt x \<noteq> None"
  proof (intro ballI impI)
    fix x assume "x \<in> set (revoke_rows ts i t)" and xid: "RefreshToken.ID x = tid"
    then obtain y where y: "y \<in> set ts" "x = ?f y"
      by (auto simp: revoke_rows_def)
    with xid keep [of y] have "RefreshToken.ID y = tid" by simp
    with assms y(1) have "RevokedAt y \<noteq> None" by (auto simp: spent_def)
    with keep [of y] y(2) show "RevokedAt x \<noteq> None" by simp
  qed
  with ex show ?thesis by (simp add: spent_def)
qed

lemma spent_append:
  "spent ts tid h \<Longrightarrow> \<forall>rt \<in> set ts. RefreshToken.ID rt \<noteq> RefreshToken.ID row
     \<Longrightarrow> spent (ts @ [row]) tid h"
  unfolding spent_def by auto

lemma GenerateTokens_effect:
  assumes "GenerateTokens bc cfg e d user = (r, d')"
  shows "(isl r \<and> d' = d)
       \<or> (\<not> isl r \<and> (\<exists>row. d' = d\<lparr>refresh_tokens := refresh_tokens d @ [row]\<rparr>
               \<and> \<not> insert_refresh_token_violates d row
               \<and> RevokedAt row = None
               \<and> HashRefreshToken bc e (RefreshToken (projr r)) = Inr (TokenHash row)))"
proof (cases "GenerateAccessToken e (User.ID user) (User.Email user) (User.Name user)
             (JWTPrivateKey cfg) (JWTAccessTokenExpiry cfg)")
  case (Inl a)
  with assms show ?thesis by (auto simp add: GenerateTokens_def)
next
  case at: (Inr accessToken)
  show ?thesis
  proof (cases "GenerateRefreshToken e")
    case (Inl a)
    with assms at show ?thesis by (auto simp add: GenerateTokens_def)
  next
    case rt: (Inr refreshToken)
    show ?thesis
    proof (cases "HashRefreshToken bc e refreshToken")
      case (Inl a)
      with assms at rt show ?thesis by (auto simp add: GenerateTokens_def)
    next
      case h: (Inr tokenHash)
      let ?row = "\<lparr>RefreshToken.ID = gen_random_uuid e,
                                RefreshToken.UserID = User.ID user,
                                TokenHash = tokenHash,
                                RefreshToken.ExpiresAt = time_Now e + JWTRefreshTokenExpiry cfg,
                                RefreshToken.CreatedAt = time_Now e,
                                RevokedAt = None\<rparr>"
      show ?thesis
      proof (cases "db_fail e InsertRefreshToken \<or> insert_refresh_token_violates d ?row")
        case True
        with assms at rt h show ?thesis by (auto simp add: GenerateTokens_def)
      next
        case False
        with assms at rt h have r: "r = Inr \<lparr>AccessToken = accessToken, RefreshToken = refreshToken\<rparr>"
          and d': "d' = d\<lparr>refresh_tokens := refresh_tokens d @ [?row]\<rparr>"
          by (auto simp add: GenerateTokens_def)
        have "\<not> insert_refresh_token_violates d ?row \<and> RevokedAt ?row = None
              \<and> HashRefreshToken bc e (RefreshToken (projr r)) = Inr (TokenHash ?row)"
          using False h by (simp add: r)
        with d' r show ?thesis by (intro disjI2 conjI exI [of _ ?row]) simp_all
      qed
    qed
  qed
qed


lemma spent_GenerateTokens:
  assumes "spent (refresh_tokens d) tid h"
  shows "spent (refresh_tokens (snd (GenerateTokens bc cfg e d user))) tid h"
proof -
  obtain r d' where eq: "GenerateTokens bc cfg e d user = (r, d')"
    by (cases "GenerateTokens bc cfg e d user")
  from GenerateTokens_effect [OF eq] show ?thesis
  proof
    assume "isl r \<and> d' = d"
    then show ?thesis using assms eq by simp
  next
    assume "\<not> isl r \<and> (\<exists>row. d' = d\<lparr>refresh_tokens := refresh_tokens d @ [row]\<rparr>
               \<and> \<not> insert_refresh_token_violates d row
               \<and> RevokedAt row = None
               \<and> HashRefreshToken bc e (RefreshToken (projr r)) = Inr (TokenHash row))"
    then obtain row where d': "d' = d\<lparr>refresh_tokens := refresh_tokens d @ [row]\<rparr>"
      and nv: "\<not> insert_refresh_token_violates d row"
      by blast
    from nv have "\<forall>rt \<in> set (refresh_tokens d). RefreshToken.ID rt \<noteq> RefreshToken.ID row"
      by (simp add: insert_refresh_token_violates_def)
    with assms have "spent (refresh_tokens d @ [row]) tid h"
      by (rule spent_append)
    then show ?thesis by (simp add: eq d')
  qed
qed

lemma RefreshAccessToken_split:
  "RefreshAccessToken bc cfg e d tok =
     (case RefreshAccessToken_scan bc e d tok of
        Inl err \<Rightarrow> (Inl err, d)
      | Inr tokenRecord \<Rightarrow> RefreshAccessToken_rest bc cfg e d tokenRecord)"
  by (simp add: RefreshAccessToken_def RefreshAccessToken_scan_def RefreshAccessToken_rest_def
        split: option.splits)

lemma spent_RefreshAccessToken_rest:
  assumes "spent (refresh_tokens d) tid h"
  shows "spent (refresh_tokens (snd (RefreshAccessToken_rest bc cfg e d rt))) tid h"
proof -
  let ?d1 = "d\<lparr>refresh_tokens := revoke_rows (refresh_tokens d) (RefreshToken.ID rt) (time_Now e)\<rparr>"
  have d1: "spent (refresh_tokens ?d1) tid h"
    using assms by (simp add: spent_revoke_rows)
  then have "\<And>u. spent (refresh_tokens (snd (GenerateTokens bc cfg e ?d1 u))) tid h"
    by (rule spent_GenerateTokens)
  with d1 assms show ?thesis
    by (simp add: RefreshAccessToken_rest_def Let_def split: option.splits)
qed

lemma spent_RefreshAccessToken:
  assumes "spent (refresh_tokens d) tid h"
  shows "spent (refresh_tokens (snd (RefreshAccessToken bc cfg e d tok))) tid h"
  using assms spent_RefreshAccessToken_rest [OF assms]
  by (simp add: RefreshAccessToken_split split: sum.splits)

lemma spent_RevokeRefreshToken:
  assumes "spent (refresh_tokens d) tid h"
  shows "spent (refresh_tokens (snd (RevokeRefreshToken bc e d tok))) tid h"
  using assms by (simp add: RevokeRefreshToken_def Let_def spent_revoke_rows)

lemma CreateOrUpdateUser_tokens:
  "refresh_tokens (snd (CreateOrUpdateUser cfg e d info)) = refresh_tokens d"
  by (simp add: CreateOrUpdateUser_def Let_def split: option.splits)

lemma LogAuthEvent_tokens:
  "refresh_tokens (LogAuthEvent e d uid a ip ua) = refresh_tokens d"
  by (simp add: LogAuthEvent_def)

lemma spent_GoogleCallback:
  assumes sp: "spent (refresh_tokens d) tid h"
  shows "spent (refresh_tokens (snd (GoogleCallback bc cfg e d r))) tid h"
proof -
  have c: "\<And>info. spent (refresh_tokens (snd (CreateOrUpdateUser cfg e d info))) tid h"
    by (simp add: CreateOrUpdateUser_tokens sp)
  then have g: "\<And>info u. spent (refresh_tokens
              (snd (GenerateTokens bc cfg e (snd (CreateOrUpdateUser cfg e d info)) u))) tid h"
    by (rule spent_GenerateTokens)
  show ?thesis
  proof (cases "request_Cookie r ''oauth_state''")
    case None
    then show ?thesis by (simp add: GoogleCallback_def sp)
  next
    case st: (Some stateCookie)
    show ?thesis
    proof (cases "request_Cookie r ''oauth_redirect''")
      case None
      with st show ?thesis by (simp add: GoogleCallback_def sp)
    next
      case rd: (Some redirectURI)
      show ?thesis
      proof (cases "ExchangeGoogleCode e (Query_Get r ''code'')")
        case (Inl a)
        with st rd show ?thesis by (simp add: GoogleCallback_def Let_def sp)
      next
        case ex: (Inr userInfo)
        obtain ur d1 where cu: "CreateOrUpdateUser cfg e d userInfo = (ur, d1)"
          by (cases "CreateOrUpdateUser cfg e d userInfo")
        have d1: "spent (refresh_tokens d1) tid h"
          using c [of userInfo] by (simp add: cu)
        show ?thesis
        proof (cases ur)
          case (Inl a)
          with st rd ex cu d1 show ?thesis by (simp add: GoogleCallback_def Let_def sp)
        next
          case u: (Inr user)
          obtain tr d2 where gt: "GenerateTokens bc cfg e d1 user = (tr, d2)"
            by (cases "GenerateTokens bc cfg e d1 user")
          have d2: "spent (refresh_tokens d2) tid h"
            using g [of userInfo user] by (simp add: cu gt)
          from st rd ex cu u gt d1 d2 show ?thesis
            by (cases tr) (simp_all add: GoogleCallback_def Let_def sp LogAuthEvent_tokens)
        qed
      qed
    qed
  qed
qed

lemma spent_Logout:
  assumes sp: "spent (refresh_tokens d) tid h"
  shows "spent (refresh_tokens (snd (Logout bc cfg e d r))) tid h"
  using sp spent_RevokeRefreshToken [OF sp]
  by (simp add: Logout_def Let_def LogAuthEvent_tokens split: option.splits)

lemma spent_run_call:
  assumes sp: "spent (refresh_tokens d) tid h"
  shows "spent (refresh_tokens (run_call bc cfg d c)) tid h"
proof (cases c)
  case (CallCreateOrUpdateUser e info)
  then show ?thesis by (simp add: CreateOrUpdateUser_tokens sp)
next
  case (CallGenerateTokens e user)
  then show ?thesis by (simp add: spent_GenerateTokens sp)
next
  case (CallRefreshAccessToken e tok)
  then show ?thesis by (simp add: spent_RefreshAccessToken sp)
next
  case (CallRevokeRefreshToken e tok)
  then show ?thesis by (simp add: spent_RevokeRefreshToken sp)
next
  case (CallLogAuthEvent e uid a ip ua)
  then show ?thesis by (simp add: LogAuthEvent_tokens sp)
next
  case (CallGoogleCallback e r)
  then show ?thesis by (simp add: spent_GoogleCallback sp)
next
  case (CallLogout e r)
  then show ?thesis by (simp add: spent_Logout sp)
next
  case (CallDeleteUser e uid)
  then show ?thesis by (simp add: DeleteUser_def sp)
next
  case (CallActivateUser e uid)
  then show ?thesis by (simp add: ActivateUser_def sp)
next
  case (CallDeactivateUser e uid)
  then show ?thesis by (simp add: DeactivateUser_def sp)
qed

lemma spent_run_calls:
  "spent (refresh_tokens d) tid h \<Longrightarrow> spent (refresh_tokens (run_calls bc cfg d cs)) tid h"
  unfolding run_calls_def
  by (induction cs arbitrary: d) (simp_all add: spent_run_call)


lemma match_loop_Some:
  "match_loop bc e rows tok = Some rt
     \<Longrightarrow> rt \<in> set rows \<and> CompareRefreshToken bc (TokenHash rt) tok"
  by (induction rows) (simp_all split: if_splits)

lemma spent_after_revoke:
  assumes "rt \<in> set ts"
  shows "spent (revoke_rows ts (RefreshToken.ID rt) t) (RefreshToken.ID rt) (TokenHash rt)"
proof -
  have "rt\<lparr>RevokedAt := Some t\<rparr> \<in> set (revoke_rows ts (RefreshToken.ID rt) t)"
    using assms by (force simp: revoke_rows_def)
  moreover have "RefreshToken.ID (rt\<lparr>RevokedAt := Some t\<rparr>) = RefreshToken.ID rt
      \<and> TokenHash (rt\<lparr>RevokedAt := Some t\<rparr>) = TokenHash rt"
    by simp
  ultimately have "\<exists>x \<in> set (revoke_rows ts (RefreshToken.ID rt) t).
      RefreshToken.ID x = RefreshToken.ID rt \<and> TokenHash x = TokenHash rt"
    by (rule rev_bexI)
  moreover have "\<forall>x \<in> set (revoke_rows ts (RefreshToken.ID rt) t).
      RefreshToken.ID x = RefreshToken.ID rt \<longrightarrow> RevokedAt x \<noteq> None"
    by (auto simp: revoke_rows_def)
  ultimately show ?thesis by (simp add: spent_def)
qed

lemma RefreshAccessToken_success_spent:
  assumes ok: "RefreshAccessToken bc cfg e d tok = (Inr pair, d1)"
  shows "\<exists>rt :: RefreshToken. CompareRefreshToken bc (TokenHash rt) tok
            \<and> spent (refresh_tokens d1) (RefreshToken.ID rt) (TokenHash rt)"
proof (cases "RefreshAccessToken_scan bc e d tok")
  case (Inl err)
  with ok show ?thesis by (simp add: RefreshAccessToken_split)
next
  case (Inr rt)
  then have m: "match_loop bc e (select_valid_refresh_tokens (refresh_tokens d) (time_Now e)) tok
                  = Some rt"
    by (simp add: RefreshAccessToken_scan_def split: if_splits option.splits)
  from match_loop_Some [OF m] have mem: "rt \<in> set (refresh_tokens d)"
    and cmp: "CompareRefreshToken bc (TokenHash rt) tok"
    by (simp_all add: select_valid_refresh_tokens_def)
  let ?d0 = "d\<lparr>refresh_tokens :=
                 revoke_rows (refresh_tokens d) (RefreshToken.ID rt) (time_Now e)\<rparr>"
  have rest: "RefreshAccessToken_rest bc cfg e d rt = (Inr pair, d1)"
    using ok Inr by (simp add: RefreshAccessToken_split)
  have "spent (refresh_tokens ?d0) (RefreshToken.ID rt) (TokenHash rt)"
    using mem by (simp add: spent_after_revoke)
  then have "\<And>u. spent (refresh_tokens (snd (GenerateTokens bc cfg e ?d0 u)))
                    (RefreshToken.ID rt) (TokenHash rt)"
    by (rule spent_GenerateTokens)
  then have g: "\<And>u. spent (refresh_tokens (snd (GenerateTokens bc cfg e ?d0 u)))
                    (RefreshToken.ID rt) (TokenHash rt)" .
  from rest obtain user where "GenerateTokens bc cfg e ?d0 user = (Inr pair, d1)"
    by (auto simp: RefreshAccessToken_rest_def Let_def split: if_splits option.splits)
  with g [of user] have "spent (refresh_tokens d1) (RefreshToken.ID rt) (TokenHash rt)"
    by simp
  with cmp have "CompareRefreshToken bc (TokenHash rt) tok
            \<and> spent (refresh_tokens d1) (RefreshToken.ID rt) (TokenHash rt)"
    by simp
  then show ?thesis by (rule exI)
qed

lemma spent_no_match:
  assumes sp: "spent (refresh_tokens d) tid h"
    and cmp: "CompareRefreshToken bc h tok"
    and uniq: "raw_unique bc d tok"
  shows "match_loop bc e (select_valid_refresh_tokens (refresh_tokens d) t) tok = None"
proof (cases "match_loop bc e (select_valid_refresh_tokens (refresh_tokens d) t) tok")
  case None
  then show ?thesis .
next
  case (Some rt)
  from match_loop_Some [OF Some] have mem: "rt \<in> set (refresh_tokens d)"
    and live: "RevokedAt rt = None"
    and c: "CompareRefreshToken bc (TokenHash rt) tok"
    by (simp_all add: select_valid_refresh_tokens_def)
  from sp obtain r0 where r0: "r0 \<in> set (refresh_tokens d)" "RefreshToken.ID r0 = tid"
      "TokenHash r0 = h"
    by (auto simp: spent_def)
  from uniq mem r0(1) c cmp r0(3) have "RefreshToken.ID rt = RefreshToken.ID r0"
    unfolding raw_unique_def by blast
  with sp mem r0(2) have "RevokedAt rt \<noteq> None"
    by (simp add: spent_def)
  with live show ?thesis by simp
qed


section \<open>Example runs\<close>

lemma ex_env_sel:
  "time_Now (ex_env t n) = t" "gen_random_uuid (ex_env t n) = n"
  "db_fail (ex_env t n) s = False" "scan_fail (ex_env t n) i = False"
  "rand_bytes (ex_env t n) = ex_bytes" "rand_err (ex_env t n) = False"
  "bcrypt_salt (ex_env t n) = ''s1''" "sign_err (ex_env t n) = False"
  by (simp_all add: ex_env_def)

lemma ex_bcrypt_sel:
  "GenerateFromPassword ex_bcrypt salt pw = Some (salt @ pw)"
  "CompareRefreshToken ex_bcrypt h pw = (drop 2 h = pw)"
  by (simp_all add: ex_bcrypt_def CompareRefreshToken_def)

lemma GenerateRefreshToken_ex:
  assumes "rand_bytes e = ex_bytes" and "\<not> rand_err e"
  shows "GenerateRefreshToken e = Inr ''AQIDBAUGBwgJCgsMDQ4PEBESExQVFhcYGRobHB0eHyA=''"
  using assms
  by (simp add: GenerateRefreshToken_def rand_Read_def ex_bytes_def enc_def encodeURL_def)

lemma RefreshAccessToken_ex:
  "RefreshAccessToken ex_bcrypt ex_cfg (ex_env 10 6) ex_db_tok ''tokenA'' = (Inr ex_pair, ex_db_rotated)"
  by (simp add: RefreshAccessToken_def GenerateTokens_def GenerateRefreshToken_ex
        GenerateAccessToken_def NewNumericDate_def Second_def select_valid_refresh_tokens_def
        SignedString_def HashRefreshToken_def insert_refresh_token_violates_def
        revoke_rows_def select_active_user_def Let_def ex_env_sel ex_bcrypt_sel
        ex_db_tok_def ex_cfg_def ex_alice_def ex_token_row_def ex_pair_def ex_claims_def
        ex_db_rotated_def ex_successor_row_def)

section \<open>Rotation on use\<close>

text \<open>
  C1. After a successful rotation of a presented token, and after any further calls of
  the service, presenting the same token again fails and changes nothing, provided the
  token identifies at most one stored record: with \<open>invalid or expired refresh token\<close>
  when the scan query is answered, with the query's failure otherwise. The record matched
  by the first rotation was revoked by it, no call resets a revoked timestamp, and the
  scan reads only rows whose revoked timestamp is unset.
\<close>

theorem rotated_token_rejected:
  assumes first: "RefreshAccessToken bc cfg e1 d refreshToken = (Inr pair, d1)"
    and uniq: "raw_unique bc (run_calls bc cfg d1 cs) refreshToken"
  shows "RefreshAccessToken bc cfg e2 (run_calls bc cfg d1 cs) refreshToken =
           (Inl (if db_fail e2 SelectRefreshTokens then ErrQueryRefreshTokens
                 else ErrInvalidRefreshToken),
            run_calls bc cfg d1 cs)"
proof -
  from RefreshAccessToken_success_spent [OF first] obtain rt :: RefreshToken
    where cmp: "CompareRefreshToken bc (TokenHash rt) refreshToken"
      and sp: "spent (refresh_tokens d1) (RefreshToken.ID rt) (TokenHash rt)"
    by blast
  from sp have "spent (refresh_tokens (run_calls bc cfg d1 cs)) (RefreshToken.ID rt) (TokenHash rt)"
    by (rule spent_run_calls)
  from spent_no_match [OF this cmp uniq] show ?thesis
    by (simp add: RefreshAccessToken_def)
qed
theorem rotated_token_rejected_witness:
  "RefreshAccessToken ex_bcrypt ex_cfg (ex_env 10 6) ex_db_tok ''tokenA'' = (Inr ex_pair, ex_db_rotated)
   \<and> raw_unique ex_bcrypt
        (run_calls ex_bcrypt ex_cfg ex_db_rotated [CallRevokeRefreshToken (ex_env 11 0) ''tokenA''])
        ''tokenA''
   \<and> RefreshAccessToken ex_bcrypt ex_cfg (ex_env 20 8)
        (run_calls ex_bcrypt ex_cfg ex_db_rotated [CallRevokeRefreshToken (ex_env 11 0) ''tokenA''])
        ''tokenA''
      = (Inl ErrInvalidRefreshToken, ex_db_rotated)"
proof -
  have run: "run_calls ex_bcrypt ex_cfg ex_db_rotated [CallRevokeRefreshToken (ex_env 11 0) ''tokenA'']
               = ex_db_rotated"
    by (simp add: run_calls_def RevokeRefreshToken_def select_valid_refresh_tokens_def Let_def
          uuid_Nil_def ex_env_sel ex_bcrypt_sel ex_db_rotated_def ex_token_row_def
          ex_successor_row_def)
  have uniq: "raw_unique ex_bcrypt ex_db_rotated ''tokenA''"
    by (simp add: raw_unique_def ex_bcrypt_sel ex_db_rotated_def ex_token_row_def
          ex_successor_row_def)
  have "RefreshAccessToken ex_bcrypt ex_cfg (ex_env 20 8)
          (run_calls ex_bcrypt ex_cfg ex_db_rotated
             [CallRevokeRefreshToken (ex_env 11 0) ''tokenA'']) ''tokenA''
        = (Inl (if db_fail (ex_env 20 8) SelectRefreshTokens then ErrQueryRefreshTokens
                else ErrInvalidRefreshToken),
           run_calls ex_bcrypt ex_cfg ex_db_rotated
             [CallRevokeRefreshToken (ex_env 11 0) ''tokenA''])"
    by (rule rotated_token_rejected [OF RefreshAccessToken_ex]) (simp add: run uniq)
  then show ?thesis
    by (simp add: run uniq RefreshAccessToken_ex ex_env_sel)
qed

section \<open>Failing calls and the stored state\<close>

lemma RefreshAccessToken_failure_effect:
  assumes "RefreshAccessToken bc cfg e d tok = (Inl err, d')"
  shows "(d' = d \<and> err \<in> {ErrQueryRefreshTokens, ErrInvalidRefreshToken, ErrRevokeOldToken})
       \<or> (\<exists>rt \<in> set (refresh_tokens d).
             RevokedAt rt = None \<and> CompareRefreshToken bc (TokenHash rt) tok
             \<and> d' = d\<lparr>refresh_tokens :=
                         revoke_rows (refresh_tokens d) (RefreshToken.ID rt) (time_Now e)\<rparr>
             \<and> err \<in> {ErrUserNotFoundOrInactive, ErrGenerateAccessToken,
                       ErrGenerateRefreshToken, ErrHashRefreshToken, ErrStoreRefreshToken})"
proof (cases "RefreshAccessToken_scan bc e d tok")
  case (Inl a)
  with assms have "d' = d" and "err = a"
    by (simp_all add: RefreshAccessToken_split)
  moreover from Inl have "a \<in> {ErrQueryRefreshTokens, ErrInvalidRefreshToken}"
    by (auto simp: RefreshAccessToken_scan_def split: if_splits option.splits)
  ultimately show ?thesis by auto
next
  case (Inr rt)
  then have m: "match_loop bc e (select_valid_refresh_tokens (refresh_tokens d) (time_Now e)) tok
                  = Some rt"
    by (simp add: RefreshAccessToken_scan_def split: if_splits option.splits)
  from match_loop_Some [OF m] have mem: "rt \<in> set (refresh_tokens d)"
    and live: "RevokedAt rt = None"
    and cmp: "CompareRefreshToken bc (TokenHash rt) tok"
    by (simp_all add: select_valid_refresh_tokens_def)
  let ?d0 = "d\<lparr>refresh_tokens :=
                 revoke_rows (refresh_tokens d) (RefreshToken.ID rt) (time_Now e)\<rparr>"
  have rest: "RefreshAccessToken_rest bc cfg e d rt = (Inl err, d')"
    using assms Inr by (simp add: RefreshAccessToken_split)
  show ?thesis
  proof (cases "db_fail e RevokeToken")
    case True
    with rest show ?thesis by (simp add: RefreshAccessToken_rest_def)
  next
    case False
    have "d' = ?d0 \<and> err \<in> {ErrUserNotFoundOrInactive, ErrGenerateAccessToken,
                       ErrGenerateRefreshToken, ErrHashRefreshToken, ErrStoreRefreshToken}"
    proof (cases "db_fail e SelectUserByID
                  \<or> select_active_user (users d) (RefreshToken.UserID rt) = None")
      case True
      with rest False show ?thesis
        by (auto simp: RefreshAccessToken_rest_def Let_def split: if_splits)
    next
      case nf: False
      then obtain user where u: "select_active_user (users d) (RefreshToken.UserID rt) = Some user"
        by auto
      with rest False nf have g: "GenerateTokens bc cfg e ?d0 user = (Inl err, d')"
        by (simp add: RefreshAccessToken_rest_def Let_def)
      from GenerateTokens_effect [OF g] have "d' = ?d0" by simp
      moreover from g have "err \<in> {ErrGenerateAccessToken,
                       ErrGenerateRefreshToken, ErrHashRefreshToken, ErrStoreRefreshToken}"
        by (auto simp: GenerateTokens_def Let_def split: sum.splits if_splits)
      ultimately show ?thesis by simp
    qed
    with mem live cmp show ?thesis by blast
  qed
qed

lemma RevokeRefreshToken_failure_effect:
  "RevokeRefreshToken bc e d tok = (Some err, d') \<Longrightarrow> d' = d"
  by (auto simp: RevokeRefreshToken_def Let_def split: if_splits)

lemma GenerateTokens_failure_effect:
  assumes "GenerateTokens bc cfg e d user = (Inl err, d')"
  shows "d' = d"
  using GenerateTokens_effect [OF assms] by simp

lemma ex_env_insert_fails_sel:
  "time_Now ex_env_insert_fails = 10" "gen_random_uuid ex_env_insert_fails = 6"
  "db_fail ex_env_insert_fails s = (s = InsertRefreshToken)"
  "scan_fail ex_env_insert_fails i = False"
  "rand_bytes ex_env_insert_fails = ex_bytes" "rand_err ex_env_insert_fails = False"
  "bcrypt_salt ex_env_insert_fails = ''s1''" "sign_err ex_env_insert_fails = False"
  by (simp_all add: ex_env_insert_fails_def ex_env_def)

lemma RefreshAccessToken_insert_fails_ex:
  "RefreshAccessToken ex_bcrypt ex_cfg ex_env_insert_fails ex_db_tok ''tokenA''
     = (Inl ErrStoreRefreshToken, ex_db_revoked)"
  by (simp add: RefreshAccessToken_def GenerateTokens_def GenerateRefreshToken_ex
        GenerateAccessToken_def NewNumericDate_def Second_def select_valid_refresh_tokens_def
        SignedString_def HashRefreshToken_def insert_refresh_token_violates_def
        revoke_rows_def select_active_user_def Let_def ex_env_insert_fails_sel ex_bcrypt_sel
        ex_db_tok_def ex_cfg_def ex_alice_def ex_token_row_def ex_db_revoked_def)

lemma RefreshAccessToken_inactive_ex:
  "RefreshAccessToken ex_bcrypt ex_cfg (ex_env 10 6) ex_db_inactive ''tokenA''
     = (Inl ErrUserNotFoundOrInactive, ex_db_inactive_revoked)"
  by (simp add: RefreshAccessToken_def select_valid_refresh_tokens_def
        revoke_rows_def select_active_user_def Let_def ex_env_sel ex_bcrypt_sel
        ex_db_inactive_def ex_alice_def ex_token_row_def ex_db_inactive_revoked_def)

text \<open>
  C3, as stated, fails: a rotation whose successor cannot be stored, and a rotation for
  a deactivated user, both return an error and leave the matched record revoked with no
  successor issued.
\<close>

theorem rotate_not_atomic_counterexample:
  "RefreshAccessToken ex_bcrypt ex_cfg ex_env_insert_fails ex_db_tok ''tokenA''
     = (Inl ErrStoreRefreshToken, ex_db_revoked)
   \<and> RefreshAccessToken ex_bcrypt ex_cfg (ex_env 10 6) ex_db_inactive ''tokenA''
     = (Inl ErrUserNotFoundOrInactive, ex_db_inactive_revoked)
   \<and> ex_db_revoked \<noteq> ex_db_tok
   \<and> ex_db_inactive_revoked \<noteq> ex_db_inactive
   \<and> length (refresh_tokens ex_db_revoked) = length (refresh_tokens ex_db_tok)
   \<and> length (refresh_tokens ex_db_inactive_revoked) = length (refresh_tokens ex_db_inactive)"
proof -
  have "ex_db_revoked \<noteq> ex_db_tok"
    and "ex_db_inactive_revoked \<noteq> ex_db_inactive"
    and "length (refresh_tokens ex_db_revoked) = length (refresh_tokens ex_db_tok)"
    and "length (refresh_tokens ex_db_inactive_revoked) = length (refresh_tokens ex_db_inactive)"
    by (simp_all add: ex_db_revoked_def ex_db_tok_def ex_db_inactive_revoked_def
          ex_db_inactive_def ex_token_row_def)
  with RefreshAccessToken_insert_fails_ex RefreshAccessToken_inactive_ex
  show ?thesis by simp
qed

text \<open>
  C3, amended. A failing issue and a failing revoke leave the stored state as it was. A
  failing rotation leaves it as it was when it fails at the scan query, at matching or at
  the revocation update; when it fails later (the user is missing or inactive, or signing,
  token generation, hashing or the insertion of the successor fails), the stored state
  differs exactly by the revocation of the record that was matched, which was live and
  compares equal to the presented token.
\<close>

theorem failing_call_effect:
  "(GenerateTokens bc cfg e d user = (Inl err, d') \<longrightarrow> d' = d)
   \<and> (RevokeRefreshToken bc e d tok = (Some err, d') \<longrightarrow> d' = d)
   \<and> (RefreshAccessToken bc cfg e d tok = (Inl err, d') \<longrightarrow>
        (if err \<in> {ErrQueryRefreshTokens, ErrInvalidRefreshToken, ErrRevokeOldToken}
         then d' = d
         else \<exists>rt \<in> set (refresh_tokens d).
                RevokedAt rt = None \<and> CompareRefreshToken bc (TokenHash rt) tok
                \<and> d' = d\<lparr>refresh_tokens :=
                            revoke_rows (refresh_tokens d) (RefreshToken.ID rt) (time_Now e)\<rparr>))"
proof (intro conjI impI)
  assume "GenerateTokens bc cfg e d user = (Inl err, d')"
  then show "d' = d" by (rule GenerateTokens_failure_effect)
next
  assume "RevokeRefreshToken bc e d tok = (Some err, d')"
  then show "d' = d" by (rule RevokeRefreshToken_failure_effect)
next
  assume "RefreshAccessToken bc cfg e d tok = (Inl err, d')"
  from RefreshAccessToken_failure_effect [OF this]
  show "if err \<in> {ErrQueryRefreshTokens, ErrInvalidRefreshToken, ErrRevokeOldToken}
         then d' = d
         else \<exists>rt \<in> set (refresh_tokens d).
                RevokedAt rt = None \<and> CompareRefreshToken bc (TokenHash rt) tok
                \<and> d' = d\<lparr>refresh_tokens :=
                            revoke_rows (refresh_tokens d) (RefreshToken.ID rt) (time_Now e)\<rparr>"
    by auto
qed

theorem failing_call_effect_witness:
  "GenerateTokens ex_bcrypt ex_cfg ex_env_sign_fails ex_db_tok ex_alice
     = (Inl ErrGenerateAccessToken, ex_db_tok)
   \<and> RevokeRefreshToken ex_bcrypt (ex_env 10 6) ex_db_tok ''tokenB''
     = (Some ErrRefreshTokenNotFound, ex_db_tok)
   \<and> RefreshAccessToken ex_bcrypt ex_cfg ex_env_insert_fails ex_db_tok ''tokenA''
     = (Inl ErrStoreRefreshToken, ex_db_revoked)
   \<and> (\<exists>rt \<in> set (refresh_tokens ex_db_tok).
         RevokedAt rt = None \<and> CompareRefreshToken ex_bcrypt (TokenHash rt) ''tokenA''
         \<and> ex_db_revoked = ex_db_tok\<lparr>refresh_tokens :=
               revoke_rows (refresh_tokens ex_db_tok) (RefreshToken.ID rt)
                 (time_Now ex_env_insert_fails)\<rparr>)"
proof -
  have g: "GenerateTokens ex_bcrypt ex_cfg ex_env_sign_fails ex_db_tok ex_alice
             = (Inl ErrGenerateAccessToken, ex_db_tok)"
    by (simp add: GenerateTokens_def GenerateAccessToken_def NewNumericDate_def Second_def
          SignedString_def Let_def
          ex_env_sign_fails_def)
  have r: "RevokeRefreshToken ex_bcrypt (ex_env 10 6) ex_db_tok ''tokenB''
             = (Some ErrRefreshTokenNotFound, ex_db_tok)"
    by (simp add: RevokeRefreshToken_def select_valid_refresh_tokens_def Let_def uuid_Nil_def
          ex_env_sel ex_bcrypt_sel ex_db_tok_def ex_token_row_def)
  note t = RefreshAccessToken_insert_fails_ex
  from failing_call_effect [of ex_bcrypt ex_cfg ex_env_insert_fails ex_db_tok ex_alice
         ErrStoreRefreshToken ex_db_revoked "''tokenA''"] t
  have "\<exists>rt \<in> set (refresh_tokens ex_db_tok).
         RevokedAt rt = None \<and> CompareRefreshToken ex_bcrypt (TokenHash rt) ''tokenA''
         \<and> ex_db_revoked = ex_db_tok\<lparr>refresh_tokens :=
               revoke_rows (refresh_tokens ex_db_tok) (RefreshToken.ID rt)
                 (time_Now ex_env_insert_fails)\<rparr>"
    by simp
  with g r t show ?thesis by simp
qed

section \<open>Concurrent rotations\<close>

lemma ex_env_second_sel:
  "time_Now ex_env_second = 10" "gen_random_uuid ex_env_second = 7"
  "db_fail ex_env_second s = False" "scan_fail ex_env_second i = False"
  "rand_bytes ex_env_second = ex_bytes2" "rand_err ex_env_second = False"
  "bcrypt_salt ex_env_second = ''s2''" "sign_err ex_env_second = False"
  by (simp_all add: ex_env_second_def ex_env_def)

lemma GenerateRefreshToken_ex2:
  assumes "rand_bytes e = ex_bytes2" and "\<not> rand_err e"
  shows "GenerateRefreshToken e = Inr ''__79_Pv6-fj39vX08_Lx8O_u7ezr6uno5-bl5OPi4eA=''"
  using assms
  by (simp add: GenerateRefreshToken_def rand_Read_def ex_bytes2_def enc_def encodeURL_def)

lemma RefreshAccessToken_scan_ex:
  "RefreshAccessToken_scan ex_bcrypt (ex_env 10 6) ex_db_tok ''tokenA'' = Inr ex_token_row"
  "RefreshAccessToken_scan ex_bcrypt ex_env_second ex_db_tok ''tokenA'' = Inr ex_token_row"
  by (simp_all add: RefreshAccessToken_scan_def select_valid_refresh_tokens_def
        ex_env_sel ex_env_second_sel ex_bcrypt_sel ex_db_tok_def ex_token_row_def)

lemma RefreshAccessToken_rest_ex1:
  "RefreshAccessToken_rest ex_bcrypt ex_cfg (ex_env 10 6) ex_db_tok ex_token_row
     = (Inr ex_pair, ex_db_rotated)"
  using RefreshAccessToken_ex
  by (simp add: RefreshAccessToken_split RefreshAccessToken_scan_ex)

lemma RefreshAccessToken_rest_ex2:
  "RefreshAccessToken_rest ex_bcrypt ex_cfg ex_env_second ex_db_rotated ex_token_row
     = (Inr ex_pair2, ex_db_rotated_twice)"
  by (simp add: RefreshAccessToken_rest_def GenerateTokens_def GenerateRefreshToken_ex2
        GenerateAccessToken_def NewNumericDate_def Second_def SignedString_def
        HashRefreshToken_def
        insert_refresh_token_violates_def revoke_rows_def select_active_user_def Let_def
        ex_env_second_sel ex_bcrypt_sel ex_db_rotated_def ex_cfg_def ex_alice_def
        ex_token_row_def ex_pair_def ex_pair2_def ex_claims_def ex_successor_row_def
        ex_db_rotated_twice_def)

text \<open>
  C2 on the code: two calls that present the same token, scheduled so that both scans
  run before either revocation, both succeed; each returns a token pair and two
  successor records are stored. The revocation update carries no condition on
  \<open>revoked_at\<close> and its row count is not inspected.
\<close>

theorem concurrent_rotations_both_succeed:
  "RefreshAccessToken_interleaved ex_bcrypt ex_cfg (ex_env 10 6) ex_env_second ex_db_tok
     ''tokenA'' ''tokenA''
   = (Inr ex_pair, Inr ex_pair2, ex_db_rotated_twice)"
  by (simp add: RefreshAccessToken_interleaved_def RefreshAccessToken_scan_ex
        RefreshAccessToken_rest_ex1 RefreshAccessToken_rest_ex2)

section \<open>Logout\<close>

lemma revoke_match_loop_eq:
  "revoke_match_loop bc e rows tok tid =
     (case match_loop bc e rows tok of None \<Rightarrow> tid | Some rt \<Rightarrow> RefreshToken.ID rt)"
  by (induction rows) simp_all

lemma Logout_response:
  "fst (Logout bc cfg e d r) = logged_out cfg e"
  by (simp add: Logout_def Let_def logged_out_def clear_cookie_def)

lemma ex_env_query_fails_sel:
  "time_Now ex_env_query_fails = 10"
  "db_fail ex_env_query_fails s = (s = SelectRefreshTokens)"
  "scan_fail ex_env_query_fails i = False"
  by (simp_all add: ex_env_query_fails_def ex_env_def)

text \<open>
  C9, as stated, fails: with a presented token that matches a live record and a scan
  query that fails, \<open>RevokeRefreshToken\<close> returns the storage error and revokes nothing,
  and \<open>Logout\<close> still answers 200 with the success message.
\<close>

theorem logout_swallows_storage_error_counterexample:
  "match_loop ex_bcrypt ex_env_query_fails
      (select_valid_refresh_tokens (refresh_tokens ex_db_tok) (time_Now ex_env_query_fails))
      ''tokenA'' = Some ex_token_row
   \<and> RevokeRefreshToken ex_bcrypt ex_env_query_fails ex_db_tok ''tokenA''
       = (Some ErrQueryRefreshTokens, ex_db_tok)
   \<and> Logout ex_bcrypt ex_cfg ex_env_query_fails ex_db_tok ex_logout_request
       = (logged_out ex_cfg ex_env_query_fails, ex_db_tok)"
  by (simp add: Logout_def RevokeRefreshToken_def Let_def logged_out_def clear_cookie_def
        request_Cookie_def select_valid_refresh_tokens_def
        ex_env_query_fails_sel ex_bcrypt_sel ex_logout_request_def ex_db_tok_def
        ex_token_row_def)

text \<open>
  C9, amended. \<open>Logout\<close> answers 200 with the success message whatever
  \<open>RevokeRefreshToken\<close> returns: its error is never surfaced, for a no-match and for
  a storage failure alike. In the no-match case (the scan query is answered and no
  scanned live record compares equal to the presented token), \<open>RevokeRefreshToken\<close>
  itself returns \<open>refresh token not found\<close> and the stored tokens are unchanged.
\<close>

theorem Logout_never_surfaces_error:
  "fst (Logout bc cfg e d r) = logged_out cfg e
   \<and> (\<not> db_fail e SelectRefreshTokens
        \<and> match_loop bc e (select_valid_refresh_tokens (refresh_tokens d) (time_Now e)) tok = None
      \<longrightarrow> RevokeRefreshToken bc e d tok = (Some ErrRefreshTokenNotFound, d)
          \<and> (request_Cookie r ''refresh_token'' = Some tok
               \<longrightarrow> refresh_tokens (snd (Logout bc cfg e d r)) = refresh_tokens d))"
proof (intro conjI impI)
  show "fst (Logout bc cfg e d r) = logged_out cfg e"
    by (rule Logout_response)
next
  assume a: "\<not> db_fail e SelectRefreshTokens
        \<and> match_loop bc e (select_valid_refresh_tokens (refresh_tokens d) (time_Now e)) tok = None"
  then show nf: "RevokeRefreshToken bc e d tok = (Some ErrRefreshTokenNotFound, d)"
    by (simp add: RevokeRefreshToken_def Let_def revoke_match_loop_eq)
  assume "request_Cookie r ''refresh_token'' = Some tok"
  with nf show "refresh_tokens (snd (Logout bc cfg e d r)) = refresh_tokens d"
    by (simp add: Logout_def Let_def LogAuthEvent_tokens split: option.splits)
qed

theorem Logout_never_surfaces_error_witness:
  "\<not> db_fail (ex_env 10 6) SelectRefreshTokens
   \<and> match_loop ex_bcrypt (ex_env 10 6)
        (select_valid_refresh_tokens (refresh_tokens ex_db_rotated) (time_Now (ex_env 10 6)))
        ''tokenA'' = None
   \<and> request_Cookie ex_logout_request ''refresh_token'' = Some ''tokenA''
   \<and> fst (Logout ex_bcrypt ex_cfg (ex_env 10 6) ex_db_rotated ex_logout_request)
       = logged_out ex_cfg (ex_env 10 6)
   \<and> RevokeRefreshToken ex_bcrypt (ex_env 10 6) ex_db_rotated ''tokenA''
       = (Some ErrRefreshTokenNotFound, ex_db_rotated)
   \<and> refresh_tokens (snd (Logout ex_bcrypt ex_cfg (ex_env 10 6) ex_db_rotated ex_logout_request))
       = refresh_tokens ex_db_rotated"
proof -
  have h1: "\<not> db_fail (ex_env 10 6) SelectRefreshTokens"
    by (simp add: ex_env_sel)
  have h2: "match_loop ex_bcrypt (ex_env 10 6)
        (select_valid_refresh_tokens (refresh_tokens ex_db_rotated) (time_Now (ex_env 10 6)))
        ''tokenA'' = None"
    by (simp add: select_valid_refresh_tokens_def ex_env_sel ex_bcrypt_sel ex_db_rotated_def
          ex_token_row_def ex_successor_row_def)
  have h3: "request_Cookie ex_logout_request ''refresh_token'' = Some ''tokenA''"
    by (simp add: request_Cookie_def ex_logout_request_def)
  from Logout_never_surfaces_error [of ex_bcrypt ex_cfg "ex_env 10 6" ex_db_rotated
         ex_logout_request "''tokenA''"] h1 h2 h3
  show ?thesis by simp
qed


section \<open>Redirect targets of the login flow\<close>

lemma valid_redirect_loop_iff:
  "valid_redirect_loop origins uri
     = (\<exists>origin \<in> set origins. uri = origin \<or> prefix (origin @ ''/'') uri)"
  by (induction origins) (auto simp: HasPrefix_def)

text \<open>
  C10. \<open>GoogleLogin\<close> panics exactly when no redirect target is given and no origin is
  configured. Otherwise the target is the given one, or the first configured origin when
  none is given; it is accepted exactly when it equals a configured origin or starts
  with one followed by \<open>/\<close>. An accepted target yields the redirect with the state and
  target cookies; any other yields 400 \<open>Invalid redirect_uri\<close> with no cookie and no
  state. An absent target with a configured origin is always accepted.
\<close>

theorem GoogleLogin_redirect_target:
  "GoogleLogin cfg e r =
     (if Query_Get r ''redirect_uri'' = [] \<and> AllowedOrigins cfg = [] then None
      else (let target = (if Query_Get r ''redirect_uri'' = [] then hd (AllowedOrigins cfg)
                          else Query_Get r ''redirect_uri'')
            in if \<exists>origin \<in> set (AllowedOrigins cfg).
                    target = origin \<or> prefix (origin @ ''/'') target
               then Some (login_redirect cfg e target)
               else Some (http_Error [] ''Invalid redirect_uri'' 400)))
   \<and> (Query_Get r ''redirect_uri'' = [] \<and> AllowedOrigins cfg \<noteq> []
        \<longrightarrow> GoogleLogin cfg e r = Some (login_redirect cfg e (hd (AllowedOrigins cfg))))"
proof (cases "Query_Get r ''redirect_uri'' = []")
  case True
  show ?thesis
  proof (cases "AllowedOrigins cfg = []")
    case empty: True
    with True show ?thesis
      by (simp add: GoogleLogin_def)
  next
    case ne: False
    then have first: "AllowedOrigins cfg ! 0 = hd (AllowedOrigins cfg)"
      by (simp add: hd_conv_nth)
    from ne have acc: "\<exists>origin \<in> set (AllowedOrigins cfg).
        hd (AllowedOrigins cfg) = origin \<or> prefix (origin @ ''/'') (hd (AllowedOrigins cfg))"
      by (intro bexI [of _ "hd (AllowedOrigins cfg)"]) simp_all
    then have "valid_redirect_loop (AllowedOrigins cfg) (hd (AllowedOrigins cfg))"
      unfolding valid_redirect_loop_iff .
    with True ne first
    have "GoogleLogin cfg e r = Some (login_redirect cfg e (hd (AllowedOrigins cfg)))"
      by (simp add: GoogleLogin_def Let_def login_redirect_def)
    with True ne acc show ?thesis
      by (simp add: Let_def)
  qed
next
  case False
  let ?uri = "Query_Get r ''redirect_uri''"
  show ?thesis
  proof (cases "valid_redirect_loop (AllowedOrigins cfg) ?uri")
    case True
    with False have "GoogleLogin cfg e r = Some (login_redirect cfg e ?uri)"
      by (simp add: GoogleLogin_def Let_def login_redirect_def)
    moreover from True have "\<exists>origin \<in> set (AllowedOrigins cfg).
        ?uri = origin \<or> prefix (origin @ ''/'') ?uri"
      unfolding valid_redirect_loop_iff .
    ultimately show ?thesis using False
      by (simp add: Let_def)
  next
    case nv: False
    with False have "GoogleLogin cfg e r = Some (http_Error [] ''Invalid redirect_uri'' 400)"
      by (simp add: GoogleLogin_def Let_def)
    moreover from nv have "\<not> (\<exists>origin \<in> set (AllowedOrigins cfg).
        ?uri = origin \<or> prefix (origin @ ''/'') ?uri)"
      unfolding valid_redirect_loop_iff .
    ultimately show ?thesis using False
      by (simp add: Let_def)
  qed
qed

theorem GoogleLogin_redirect_target_witness:
  "AllowedOrigins ex_cfg \<noteq> []
   \<and> Query_Get (ex_login_request\<lparr>query := []\<rparr>) ''redirect_uri'' = []
   \<and> GoogleLogin ex_cfg (ex_env 10 6) ex_login_request
       = Some (login_redirect ex_cfg (ex_env 10 6) ''http://localhost:5173/app'')
   \<and> GoogleLogin ex_cfg (ex_env 10 6) (ex_login_request\<lparr>query := []\<rparr>)
       = Some (login_redirect ex_cfg (ex_env 10 6) ''http://localhost:3000'')
   \<and> GoogleLogin ex_cfg (ex_env 10 6)
        (ex_login_request\<lparr>query := [(''redirect_uri'', ''http://localhost:5173.evil.org/'')]\<rparr>)
       = Some (http_Error [] ''Invalid redirect_uri'' 400)"
proof -
  have o: "AllowedOrigins ex_cfg = [''http://localhost:3000'', ''http://localhost:5173'']"
    by (simp add: ex_cfg_def)
  have q1: "Query_Get ex_login_request ''redirect_uri'' = ''http://localhost:5173/app''"
    and q2: "Query_Get (ex_login_request\<lparr>query := []\<rparr>) ''redirect_uri'' = []"
    and q3: "Query_Get (ex_login_request\<lparr>query := [(''redirect_uri'',
               ''http://localhost:5173.evil.org/'')]\<rparr>) ''redirect_uri''
             = ''http://localhost:5173.evil.org/''"
    by (simp_all add: Query_Get_def ex_login_request_def)
  have "GoogleLogin ex_cfg (ex_env 10 6) ex_login_request
       = Some (login_redirect ex_cfg (ex_env 10 6) ''http://localhost:5173/app'')"
    using GoogleLogin_redirect_target [where cfg = ex_cfg and r = ex_login_request
            and e = "ex_env 10 6"]
    by (simp add: o q1)
  moreover have "GoogleLogin ex_cfg (ex_env 10 6) (ex_login_request\<lparr>query := []\<rparr>)
       = Some (login_redirect ex_cfg (ex_env 10 6) ''http://localhost:3000'')"
    using GoogleLogin_redirect_target [where cfg = ex_cfg
            and r = "ex_login_request\<lparr>query := []\<rparr>" and e = "ex_env 10 6"]
    by (simp add: o q2)
  moreover have "GoogleLogin ex_cfg (ex_env 10 6)
        (ex_login_request\<lparr>query := [(''redirect_uri'', ''http://localhost:5173.evil.org/'')]\<rparr>)
       = Some (http_Error [] ''Invalid redirect_uri'' 400)"
    using GoogleLogin_redirect_target [where cfg = ex_cfg
        and r = "ex_login_request\<lparr>query := [(''redirect_uri'',
                   ''http://localhost:5173.evil.org/'')]\<rparr>"
        and e = "ex_env 10 6"]
    by (simp add: o q3)
  ultimately show ?thesis
    by (simp add: o q2)
qed


section \<open>Access tokens: issue and validate\<close>

lemma Public_inject:
  "Public k' = Public k \<Longrightarrow> k' = k"
  by (cases k; cases k') simp

lemma ValidateAccessToken_issued:
  assumes "GenerateAccessToken e uid email name k ttl = Inr tok"
    and "t < NumericDate_Time (NewNumericDate (time_Now e + ttl))"
  shows "ValidateAccessToken t tok (Public k) =
           Inr \<lparr>Claims.UserID = uid, Claims.Email = email, Claims.Name = name,
                Issuer = ''auth-service'', IssuedAt = Some (NewNumericDate (time_Now e)),
                Claims.ExpiresAt = Some (NewNumericDate (time_Now e + ttl)),
                NotBefore = None\<rparr>"
  using assms
  by (auto simp: GenerateAccessToken_def SignedString_def Let_def ValidateAccessToken_def
        ParseWithClaims_def SigningMethodRSA_def method_Verify_def Validate_def
        split: if_splits)

lemma GenerateTokens_access:
  assumes "GenerateTokens bc cfg e d user = (Inr pair, d')"
  shows "GenerateAccessToken e (User.ID user) (User.Email user) (User.Name user)
           (JWTPrivateKey cfg) (JWTAccessTokenExpiry cfg) = Inr (AccessToken pair)"
  using assms
  by (auto simp: GenerateTokens_def Let_def split: sum.splits if_splits)

lemma NewNumericDate_add:
  assumes "Second dvd ttl"
  shows "NewNumericDate (now + ttl) = NewNumericDate now + ttl div Second"
  using assms by (simp add: NewNumericDate_def div_plus_div_distrib_dvd_right)

lemma unexpired_at_issue:
  assumes "Second \<le> ttl"
  shows "now < NumericDate_Time (NewNumericDate (now + ttl))"
proof -
  have pos: "0 < Second"
    by (simp add: Second_def)
  then have "(now + ttl) mod Second < Second"
    by simp
  moreover have "(now + ttl) div Second * Second + (now + ttl) mod Second = now + ttl"
    by simp
  ultimately have "now + ttl - Second < (now + ttl) div Second * Second"
    by linarith
  with assms show ?thesis
    by (simp add: NumericDate_Time_def NewNumericDate_def)
qed

lemma ParseRSAPublicKeyFromPEM_served:
  "ParseRSAPublicKeyFromPEM (Body (GetPublicKey cfg)) = Some (JWTPublicKey cfg)"
  by (simp add: GetPublicKey_def ParseRSAPublicKeyFromPEM_def pem_Decode_def
        MarshalPKCS1PublicKey_def ParsePKIXPublicKey_def ParseCertificate_def
        ParsePKCS1PublicKey_def Let_def)

lemma verify_with_exported_key_eq:
  "verify_with_exported_key t tok (GetPublicKey cfg) = ValidateAccessToken t tok (JWTPublicKey cfg)"
  by (simp add: verify_with_exported_key_def ParseRSAPublicKeyFromPEM_served)

text \<open>
  The served block holds a PKCS#1 structure: a consumer that reads it with
  \<open>x509.ParsePKIXPublicKey\<close> alone, as the loader of the configuration reads the key
  file, gets no key.
\<close>

lemma served_key_not_PKIX:
  assumes "pem_Decode (Body (GetPublicKey cfg)) = Some (ty, bytes)"
  shows "ParsePKIXPublicKey bytes = None"
  using assms
  by (auto simp: GetPublicKey_def pem_Decode_def MarshalPKCS1PublicKey_def
        ParsePKIXPublicKey_def Let_def)

text \<open>
  The configuration loads the two keys from two files and does not compare them. A
  token signed with the private key is refused, by the service and under the served
  key alike, when the configured public key is not its public half.
\<close>

lemma mismatched_public_key_rejects:
  assumes "GenerateAccessToken e uid email name (JWTPrivateKey cfg) ttl = Inr tok"
    and "JWTPublicKey cfg \<noteq> Public (JWTPrivateKey cfg)"
  shows "ValidateAccessToken t tok (JWTPublicKey cfg) = Inl ErrTokenSignatureInvalid
         \<and> verify_with_exported_key t tok (GetPublicKey cfg) = Inl ErrTokenSignatureInvalid"
  using assms
  by (auto simp: verify_with_exported_key_eq GenerateAccessToken_def SignedString_def Let_def
        ValidateAccessToken_def ParseWithClaims_def SigningMethodRSA_def method_Verify_def
        split: if_splits)

lemma GenerateTokens_ex:
  "GenerateTokens ex_bcrypt ex_cfg (ex_env 10 6) ex_db ex_alice
     = (Inr ex_pair, ex_db\<lparr>refresh_tokens := [ex_successor_row]\<rparr>)"
  by (simp add: GenerateTokens_def GenerateRefreshToken_ex
        GenerateAccessToken_def SignedString_def NewNumericDate_def Second_def
        HashRefreshToken_def
        insert_refresh_token_violates_def Let_def ex_env_sel ex_bcrypt_sel
        ex_db_def ex_cfg_def ex_alice_def ex_pair_def ex_claims_def ex_successor_row_def)

text \<open>
  C4, refuted as stated. The lifetime is a \<open>time.Duration\<close> and the two timestamps of a
  token are truncated to the second one by one. A token issued 10.7 s after the epoch
  with a lifetime of 1.5 s carries the issued-at 10 and the expiry 12: the expiry is not
  the issued-at plus the lifetime. A token issued with a lifetime of zero is expired
  when it is validated at the instant of its issue.
\<close>

theorem expiry_not_issued_at_plus_ttl_counterexample:
  "GenerateAccessToken (ex_env 10700000000 6) 1 ''a@x.com'' ''Alice'' (RSAPrivateKey 1)
       1500000000 = Inr ex_token_1500ms
   \<and> ValidateAccessToken 10700000000 ex_token_1500ms (Public (RSAPrivateKey 1))
       = Inr ex_claims_1500ms
   \<and> IssuedAt ex_claims_1500ms = Some 10
   \<and> Claims.ExpiresAt ex_claims_1500ms = Some 12
   \<and> NumericDate_Time 12 \<noteq> NumericDate_Time 10 + 1500000000
   \<and> GenerateAccessToken (ex_env 10700000000 6) 1 ''a@x.com'' ''Alice'' (RSAPrivateKey 1) 0
       = Inr ex_token_ttl0
   \<and> ValidateAccessToken 10700000000 ex_token_ttl0 (Public (RSAPrivateKey 1))
       = Inl ErrTokenExpired"
  by (simp add: GenerateAccessToken_def SignedString_def NewNumericDate_def
        NumericDate_Time_def Second_def Let_def ex_env_sel ValidateAccessToken_def
        ParseWithClaims_def SigningMethodRSA_def method_Verify_def Validate_def
        ex_token_1500ms_def ex_claims_1500ms_def ex_token_ttl0_def ex_claims_ttl0_def
        ex_claims_def)

text \<open>
  C4, amended. When issuing for a user succeeds and the configured public key is the
  public half of the configured private key, validating the issued access token at any
  instant before the instant of its expiry claim succeeds. The claims returned have the
  user's id as subject, the instant of issue truncated to the second as issued-at and
  the instant of issue plus the configured lifetime, truncated to the second, as expiry.
  The expiry is the issued-at plus the lifetime when the lifetime is a whole number of
  seconds, and a token with a lifetime of a second or more validates at the instant of
  its issue. The key served by \<open>GetPublicKey\<close>, read back from its PEM text by
  \<open>jwt.ParseRSAPublicKeyFromPEM\<close>, validates the token with the same result.
\<close>

theorem issued_access_token_validates:
  assumes issue: "GenerateTokens bc cfg e d user = (Inr pair, d')"
    and keys: "JWTPublicKey cfg = Public (JWTPrivateKey cfg)"
    and unexpired:
      "t < NumericDate_Time (NewNumericDate (time_Now e + JWTAccessTokenExpiry cfg))"
  shows "\<exists>claims :: Claims.
           ValidateAccessToken t (AccessToken pair) (JWTPublicKey cfg) = Inr claims
           \<and> Claims.UserID claims = User.ID user
           \<and> IssuedAt claims = Some (NewNumericDate (time_Now e))
           \<and> Claims.ExpiresAt claims
               = Some (NewNumericDate (time_Now e + JWTAccessTokenExpiry cfg))
           \<and> (Second dvd JWTAccessTokenExpiry cfg \<longrightarrow>
                Claims.ExpiresAt claims
                  = Some (NewNumericDate (time_Now e) + JWTAccessTokenExpiry cfg div Second))
           \<and> (Second \<le> JWTAccessTokenExpiry cfg \<longrightarrow>
                ValidateAccessToken (time_Now e) (AccessToken pair) (JWTPublicKey cfg)
                  = Inr claims)
           \<and> verify_with_exported_key t (AccessToken pair) (GetPublicKey cfg) = Inr claims"
proof -
  note gen = GenerateTokens_access [OF issue]
  from ValidateAccessToken_issued [OF gen unexpired]
    ValidateAccessToken_issued [OF gen unexpired_at_issue]
  show ?thesis
    by (simp add: keys verify_with_exported_key_eq NewNumericDate_add)
qed

theorem issued_access_token_validates_witness:
  "GenerateTokens ex_bcrypt ex_cfg (ex_env 10 6) ex_db ex_alice
     = (Inr ex_pair, ex_db\<lparr>refresh_tokens := [ex_successor_row]\<rparr>)
   \<and> JWTPublicKey ex_cfg = Public (JWTPrivateKey ex_cfg)
   \<and> (899999999999 :: int)
       < NumericDate_Time (NewNumericDate (time_Now (ex_env 10 6) + JWTAccessTokenExpiry ex_cfg))
   \<and> Second dvd JWTAccessTokenExpiry ex_cfg
   \<and> Second \<le> JWTAccessTokenExpiry ex_cfg
   \<and> (\<exists>claims :: Claims.
         ValidateAccessToken 899999999999 (AccessToken ex_pair) (JWTPublicKey ex_cfg)
           = Inr claims
         \<and> Claims.UserID claims = User.ID ex_alice
         \<and> IssuedAt claims = Some 0
         \<and> Claims.ExpiresAt claims = Some 900
         \<and> ValidateAccessToken 10 (AccessToken ex_pair) (JWTPublicKey ex_cfg) = Inr claims
         \<and> verify_with_exported_key 899999999999 (AccessToken ex_pair) (GetPublicKey ex_cfg)
             = Inr claims)"
proof -
  have keys: "JWTPublicKey ex_cfg = Public (JWTPrivateKey ex_cfg)"
    by (simp add: ex_cfg_def)
  have ttl: "JWTAccessTokenExpiry ex_cfg = 900 * Second"
    by (simp add: ex_cfg_def Second_def)
  have t: "(899999999999 :: int)
       < NumericDate_Time (NewNumericDate (time_Now (ex_env 10 6) + JWTAccessTokenExpiry ex_cfg))"
    by (simp add: NumericDate_Time_def NewNumericDate_def Second_def ex_env_sel ex_cfg_def)
  have whole: "Second dvd JWTAccessTokenExpiry ex_cfg"
    by (simp add: ttl)
  have long: "Second \<le> JWTAccessTokenExpiry ex_cfg"
    by (simp add: ttl Second_def)
  have iat: "NewNumericDate 10 = 0"
    by (simp add: NewNumericDate_def Second_def)
  have exp: "NewNumericDate (10 + 900 * Second) = 900"
    by (simp add: NewNumericDate_def Second_def)
  from issued_access_token_validates [OF GenerateTokens_ex keys t] whole long
  have "\<exists>claims :: Claims.
         ValidateAccessToken 899999999999 (AccessToken ex_pair) (JWTPublicKey ex_cfg)
           = Inr claims
         \<and> Claims.UserID claims = User.ID ex_alice
         \<and> IssuedAt claims = Some 0
         \<and> Claims.ExpiresAt claims = Some 900
         \<and> ValidateAccessToken 10 (AccessToken ex_pair) (JWTPublicKey ex_cfg) = Inr claims
         \<and> verify_with_exported_key 899999999999 (AccessToken ex_pair) (GetPublicKey ex_cfg)
             = Inr claims"
    by (auto simp: ttl ex_env_sel iat exp)
  with GenerateTokens_ex keys t whole long show ?thesis
    by (intro conjI)
qed

section \<open>Access tokens: foreign signatures\<close>

text \<open>
  C5. A token that does not carry a signature made with the given private key, or whose
  header names a method outside the RSA PKCS#1 v1.5 family, is rejected with an error
  by validation under the public half of that key, at any time.
\<close>

theorem foreign_token_rejected:
  assumes "\<not> signed_with privateKey tok \<or> \<not> header_RSA tok"
  shows "isl (ValidateAccessToken t tok (Public privateKey))"
proof (cases tok)
  case (Compact alg claims sig)
  show ?thesis
  proof (cases "SigningMethodRSA alg")
    case False
    with Compact show ?thesis
      by (simp add: ValidateAccessToken_def ParseWithClaims_def)
  next
    case True
    with assms Compact have ns: "\<not> signed_with privateKey tok"
      by (simp add: header_RSA_def)
    have "\<not> method_Verify alg claims sig (Public privateKey)"
    proof (cases sig)
      case (RSASig m k' alg' claims')
      with ns Compact have "k' \<noteq> privateKey"
        by (simp add: signed_with_def)
      then have "Public k' \<noteq> Public privateKey"
        using Public_inject by blast
      with RSASig show ?thesis
        by (simp add: method_Verify_def)
    next
      case (OtherSig x)
      then show ?thesis by (simp add: method_Verify_def)
    qed
    with True Compact show ?thesis
      by (simp add: ValidateAccessToken_def ParseWithClaims_def)
  qed
next
  case (UnknownAlg x)
  then show ?thesis by (simp add: ValidateAccessToken_def ParseWithClaims_def)
next
  case (Malformed x)
  then show ?thesis by (simp add: ValidateAccessToken_def ParseWithClaims_def)
qed

theorem foreign_token_rejected_witness:
  "\<not> signed_with (RSAPrivateKey 1)
        (Compact RS256 ex_claims (RSASig RS256 (RSAPrivateKey 2) RS256 ex_claims))
   \<and> ValidateAccessToken 20
        (Compact RS256 ex_claims (RSASig RS256 (RSAPrivateKey 2) RS256 ex_claims))
        (Public (RSAPrivateKey 1)) = Inl ErrTokenSignatureInvalid
   \<and> \<not> header_RSA (Compact HS256 ex_claims (OtherSig ''mac''))
   \<and> ValidateAccessToken 20 (Compact HS256 ex_claims (OtherSig ''mac''))
        (Public (RSAPrivateKey 1)) = Inl ErrTokenUnverifiable"
proof -
  let ?t1 = "Compact RS256 ex_claims (RSASig RS256 (RSAPrivateKey 2) RS256 ex_claims)"
  let ?t2 = "Compact HS256 ex_claims (OtherSig ''mac'')"
  have n1: "\<not> signed_with (RSAPrivateKey 1) ?t1"
    by (simp add: signed_with_def)
  have n2: "\<not> header_RSA ?t2"
    by (simp add: header_RSA_def SigningMethodRSA_def)
  from n1 have h1: "\<not> signed_with (RSAPrivateKey 1) ?t1 \<or> \<not> header_RSA ?t1" ..
  from n2 have h2: "\<not> signed_with (RSAPrivateKey 1) ?t2 \<or> \<not> header_RSA ?t2" ..
  have "isl (ValidateAccessToken 20 ?t1 (Public (RSAPrivateKey 1)))"
    by (rule foreign_token_rejected [OF h1])
  moreover have "isl (ValidateAccessToken 20 ?t2 (Public (RSAPrivateKey 1)))"
    by (rule foreign_token_rejected [OF h2])
  moreover have "ValidateAccessToken 20 ?t1 (Public (RSAPrivateKey 1)) = Inl ErrTokenSignatureInvalid"
    by (simp add: ValidateAccessToken_def ParseWithClaims_def SigningMethodRSA_def
          method_Verify_def)
  moreover have "ValidateAccessToken 20 ?t2 (Public (RSAPrivateKey 1)) = Inl ErrTokenUnverifiable"
    by (simp add: ValidateAccessToken_def ParseWithClaims_def SigningMethodRSA_def)
  ultimately show ?thesis using n1 n2 by simp
qed


section \<open>Deactivated users\<close>

lemma update_user_rows_ids:
  "map User.ID (update_user_rows us uid name picture role t) = map User.ID us"
  by (induction us) (simp_all add: update_user_rows_def)

lemma CreateOrUpdateUser_users:
  assumes ok: "CreateOrUpdateUser cfg e d info = (Inr user, d1)"
    and pk: "distinct (map User.ID (users d))"
  shows "user \<in> set (users d1) \<and> distinct (map User.ID (users d1))"
proof (cases "select_user_by_google_id (users d) (GoogleUserInfo.ID info)")
  case None
  with ok have d1: "users d1 = users d @ [user]"
    and nv: "\<not> insert_user_violates (users d) user"
    by (auto simp: CreateOrUpdateUser_def Let_def split: if_splits)
  from nv have "User.ID user \<notin> User.ID ` set (users d)"
    by (auto simp: insert_user_violates_def)
  with pk d1 show ?thesis by simp
next
  case (Some old)
  let ?rows = "update_user_rows (users d) (User.ID old) (GoogleUserInfo.Name info) (Picture info)
                 (if Role old = RoleUser
                  then admin_emails_loop (AdminEmails cfg) (User.Email old) (Role old)
                  else Role old) (time_Now e)"
  from ok Some have f: "find (\<lambda>u. User.ID u = User.ID old) ?rows = Some user"
    and d1: "users d1 = ?rows"
    by (auto simp: CreateOrUpdateUser_def Let_def split: if_splits option.splits)
  from f have "user \<in> set ?rows"
    by (auto simp: find_Some_iff)
  with d1 pk show ?thesis
    by (simp add: update_user_rows_ids)
qed

lemma select_active_user_inactive:
  assumes mem: "user \<in> set us" and pk: "distinct (map User.ID us)" and na: "\<not> IsActive user"
  shows "select_active_user us (User.ID user) = None"
proof -
  have "\<And>x. x \<in> set us \<Longrightarrow> User.ID x = User.ID user \<Longrightarrow> x = user"
    using pk mem by (simp add: distinct_map inj_on_def)
  with na show ?thesis
    by (auto simp: select_active_user_def find_None_iff)
qed

lemma RefreshAccessToken_no_active_owner:
  assumes m: "match_loop bc e (select_valid_refresh_tokens (refresh_tokens d) (time_Now e)) tok
                = Some rt"
    and na: "select_active_user (users d) (RefreshToken.UserID rt) = None"
  shows "isl (fst (RefreshAccessToken bc cfg e d tok))
         \<and> length (refresh_tokens (snd (RefreshAccessToken bc cfg e d tok)))
             = length (refresh_tokens d)"
  using m na by (simp add: RefreshAccessToken_def Let_def revoke_rows_def)

text \<open>
  C6. When the callback of a login passes the state check and the identity exchanged for
  the code reconciles to a user whose active flag is false, the callback answers 403
  \<open>User account is inactive\<close>; no refresh token is stored, no refresh-token cookie is
  set and no access token is handed out. Every rotation of a refresh token owned by
  that user fails and stores no successor. An access token issued for that user's id
  earlier still validates at any time before its expiry, the instant of the expiry
  claim it carries: validation reads the token and the public key only.
\<close>

theorem inactive_user_gets_no_tokens:
  assumes st: "request_Cookie r ''oauth_state'' = Some (Query_Get r ''state'')"
    and rd: "request_Cookie r ''oauth_redirect'' = Some redirectURI"
    and code: "Query_Get r ''code'' \<noteq> []"
    and ex: "ExchangeGoogleCode e (Query_Get r ''code'') = Inr info"
    and rec: "CreateOrUpdateUser cfg e d info = (Inr user, d1)"
    and inactive: "\<not> IsActive user"
    and pk: "distinct (map User.ID (users d))"
    and keys: "JWTPublicKey cfg = Public (JWTPrivateKey cfg)"
  shows "GoogleCallback bc cfg e d r =
           (http_Error [clear_cookie e ''oauth_state'', clear_cookie e ''oauth_redirect'']
              ''User account is inactive'' 403, d1)
     \<and> refresh_tokens d1 = refresh_tokens d
     \<and> (\<forall>e' tok rt.
           match_loop bc e' (select_valid_refresh_tokens (refresh_tokens d1) (time_Now e')) tok
             = Some rt
           \<and> RefreshToken.UserID rt = User.ID user
         \<longrightarrow> isl (fst (RefreshAccessToken bc cfg e' d1 tok))
             \<and> length (refresh_tokens (snd (RefreshAccessToken bc cfg e' d1 tok)))
                 = length (refresh_tokens d1))
     \<and> (\<forall>e0 email name tok t.
           GenerateAccessToken e0 (User.ID user) email name (JWTPrivateKey cfg)
             (JWTAccessTokenExpiry cfg) = Inr tok
           \<and> t < NumericDate_Time (NewNumericDate (time_Now e0 + JWTAccessTokenExpiry cfg))
         \<longrightarrow> (\<exists>claims :: Claims.
                ValidateAccessToken t tok (JWTPublicKey cfg) = Inr claims
                \<and> Claims.UserID claims = User.ID user))"
proof (intro conjI allI impI)
  show "GoogleCallback bc cfg e d r =
           (http_Error [clear_cookie e ''oauth_state'', clear_cookie e ''oauth_redirect'']
              ''User account is inactive'' 403, d1)"
    using st rd code ex rec inactive
    by (simp add: GoogleCallback_def Let_def)
next
  show "refresh_tokens d1 = refresh_tokens d"
    using CreateOrUpdateUser_tokens [of cfg e d info] rec by simp
next
  fix e' tok and rt :: RefreshToken
  assume a: "match_loop bc e' (select_valid_refresh_tokens (refresh_tokens d1) (time_Now e')) tok
               = Some rt \<and> RefreshToken.UserID rt = User.ID user"
  from CreateOrUpdateUser_users [OF rec pk] inactive
  have "select_active_user (users d1) (User.ID user) = None"
    by (simp add: select_active_user_inactive)
  with a have na: "select_active_user (users d1) (RefreshToken.UserID rt) = None"
    by simp
  from a have m: "match_loop bc e' (select_valid_refresh_tokens (refresh_tokens d1) (time_Now e')) tok
               = Some rt"
    by simp
  from RefreshAccessToken_no_active_owner [OF m na]
  show "isl (fst (RefreshAccessToken bc cfg e' d1 tok))"
    and "length (refresh_tokens (snd (RefreshAccessToken bc cfg e' d1 tok)))
           = length (refresh_tokens d1)"
    by simp_all
next
  fix e0 email name tok t
  assume a: "GenerateAccessToken e0 (User.ID user) email name (JWTPrivateKey cfg)
             (JWTAccessTokenExpiry cfg) = Inr tok
           \<and> t < NumericDate_Time (NewNumericDate (time_Now e0 + JWTAccessTokenExpiry cfg))"
  then have g: "GenerateAccessToken e0 (User.ID user) email name (JWTPrivateKey cfg)
             (JWTAccessTokenExpiry cfg) = Inr tok"
    and t: "t < NumericDate_Time (NewNumericDate (time_Now e0 + JWTAccessTokenExpiry cfg))"
    by simp_all
  from ValidateAccessToken_issued [OF g t]
  show "\<exists>claims :: Claims.
                ValidateAccessToken t tok (JWTPublicKey cfg) = Inr claims
                \<and> Claims.UserID claims = User.ID user"
    by (simp add: keys)
qed

lemma ex_env_login_sel:
  "time_Now ex_env_login = 20" "gen_random_uuid ex_env_login = 8"
  "db_fail ex_env_login s = False" "scan_fail ex_env_login i = False"
  "google_exchange ex_env_login c = Inr ex_alice_info"
  by (simp_all add: ex_env_login_def ex_env_def)

lemma CreateOrUpdateUser_inactive_ex:
  "CreateOrUpdateUser ex_cfg ex_env_login ex_db_inactive ex_alice_info
     = (Inr ex_alice_inactive, ex_db_inactive_login)"
  by (simp add: CreateOrUpdateUser_def select_user_by_google_id_def update_user_rows_def
        Let_def RoleUser_def RoleAdmin_def ex_env_login_sel ex_cfg_def ex_db_inactive_def
        ex_alice_def ex_alice_info_def ex_alice_inactive_def ex_db_inactive_login_def)

theorem inactive_user_gets_no_tokens_witness:
  "request_Cookie ex_callback_request ''oauth_state''
     = Some (Query_Get ex_callback_request ''state'')
   \<and> request_Cookie ex_callback_request ''oauth_redirect'' = Some ''http://localhost:3000''
   \<and> Query_Get ex_callback_request ''code'' \<noteq> []
   \<and> ExchangeGoogleCode ex_env_login (Query_Get ex_callback_request ''code'') = Inr ex_alice_info
   \<and> CreateOrUpdateUser ex_cfg ex_env_login ex_db_inactive ex_alice_info
       = (Inr ex_alice_inactive, ex_db_inactive_login)
   \<and> \<not> IsActive ex_alice_inactive
   \<and> distinct (map User.ID (users ex_db_inactive))
   \<and> JWTPublicKey ex_cfg = Public (JWTPrivateKey ex_cfg)
   \<and> GoogleCallback ex_bcrypt ex_cfg ex_env_login ex_db_inactive ex_callback_request
       = (http_Error [clear_cookie ex_env_login ''oauth_state'',
                      clear_cookie ex_env_login ''oauth_redirect'']
            ''User account is inactive'' 403, ex_db_inactive_login)
   \<and> match_loop ex_bcrypt (ex_env 30 9)
        (select_valid_refresh_tokens (refresh_tokens ex_db_inactive_login) (time_Now (ex_env 30 9)))
        ''tokenA'' = Some ex_token_row
   \<and> RefreshToken.UserID ex_token_row = User.ID ex_alice_inactive
   \<and> isl (fst (RefreshAccessToken ex_bcrypt ex_cfg (ex_env 30 9) ex_db_inactive_login ''tokenA''))
   \<and> GenerateAccessToken (ex_env 10 6) (User.ID ex_alice_inactive) ''a@x.com'' ''Alice''
        (JWTPrivateKey ex_cfg) (JWTAccessTokenExpiry ex_cfg) = Inr (AccessToken ex_pair)
   \<and> (30 :: int)
       < NumericDate_Time (NewNumericDate (time_Now (ex_env 10 6) + JWTAccessTokenExpiry ex_cfg))
   \<and> (\<exists>claims :: Claims.
         ValidateAccessToken 30 (AccessToken ex_pair) (JWTPublicKey ex_cfg) = Inr claims
         \<and> Claims.UserID claims = User.ID ex_alice_inactive)"
proof -
  have st: "request_Cookie ex_callback_request ''oauth_state''
              = Some (Query_Get ex_callback_request ''state'')"
    and rd: "request_Cookie ex_callback_request ''oauth_redirect'' = Some ''http://localhost:3000''"
    and code: "Query_Get ex_callback_request ''code'' \<noteq> []"
    by (simp_all add: request_Cookie_def Query_Get_def ex_callback_request_def)
  have ex: "ExchangeGoogleCode ex_env_login (Query_Get ex_callback_request ''code'')
              = Inr ex_alice_info"
    by (simp add: ExchangeGoogleCode_def ex_env_login_sel)
  note rec = CreateOrUpdateUser_inactive_ex
  have inactive: "\<not> IsActive ex_alice_inactive"
    by (simp add: ex_alice_inactive_def)
  have pk: "distinct (map User.ID (users ex_db_inactive))"
    by (simp add: ex_db_inactive_def)
  have keys: "JWTPublicKey ex_cfg = Public (JWTPrivateKey ex_cfg)"
    by (simp add: ex_cfg_def)
  have m: "match_loop ex_bcrypt (ex_env 30 9)
        (select_valid_refresh_tokens (refresh_tokens ex_db_inactive_login) (time_Now (ex_env 30 9)))
        ''tokenA'' = Some ex_token_row"
    by (simp add: select_valid_refresh_tokens_def ex_env_sel ex_bcrypt_sel
          ex_db_inactive_login_def ex_token_row_def)
  have owner: "RefreshToken.UserID ex_token_row = User.ID ex_alice_inactive"
    by (simp add: ex_token_row_def ex_alice_inactive_def ex_alice_def)
  have g: "GenerateAccessToken (ex_env 10 6) (User.ID ex_alice_inactive) ''a@x.com'' ''Alice''
        (JWTPrivateKey ex_cfg) (JWTAccessTokenExpiry ex_cfg) = Inr (AccessToken ex_pair)"
    by (simp add: GenerateAccessToken_def SignedString_def NewNumericDate_def Second_def
          Let_def ex_env_sel ex_cfg_def ex_pair_def ex_claims_def ex_alice_inactive_def
          ex_alice_def)
  have t: "(30 :: int)
       < NumericDate_Time (NewNumericDate (time_Now (ex_env 10 6) + JWTAccessTokenExpiry ex_cfg))"
    by (simp add: NumericDate_Time_def NewNumericDate_def Second_def ex_env_sel ex_cfg_def)
  note main = inactive_user_gets_no_tokens [OF st rd code ex rec inactive pk keys,
               of ex_bcrypt]
  from main have c1: "GoogleCallback ex_bcrypt ex_cfg ex_env_login ex_db_inactive ex_callback_request
       = (http_Error [clear_cookie ex_env_login ''oauth_state'',
                      clear_cookie ex_env_login ''oauth_redirect'']
            ''User account is inactive'' 403, ex_db_inactive_login)"
    by simp
  from main m owner
  have c2: "isl (fst (RefreshAccessToken ex_bcrypt ex_cfg (ex_env 30 9) ex_db_inactive_login
                        ''tokenA''))"
    by blast
  from main g t
  have c3: "\<exists>claims :: Claims.
         ValidateAccessToken 30 (AccessToken ex_pair) (JWTPublicKey ex_cfg) = Inr claims
         \<and> Claims.UserID claims = User.ID ex_alice_inactive"
    by blast
  from st rd code ex rec inactive pk keys c1 m owner c2 g t c3 show ?thesis
    by (intro conjI)
qed


section \<open>Refresh tokens: encoding, storage, matching\<close>

text \<open>
  What the code does with a refresh token. The token is the URL-safe base64 text of 32
  bytes read from \<open>crypto/rand\<close>, and that encoding is injective on inputs of equal
  length. Issuing returns the token in the pair and stores one row, whose
  \<open>token_hash\<close> is the output of bcrypt for the token. Rotation and revocation use a
  presented token in bcrypt's comparison with the stored hashes only. How the bytes of
  \<open>crypto/rand\<close> are distributed and how hard a bcrypt hash is to invert are not
  expressible in this model, where the bytes and bcrypt are parameters.
\<close>

lemma sextets2:
  fixes n m :: nat
  assumes "n div 64 = m div 64" "n mod 64 = m mod 64"
  shows "n = m"
  using assms by (metis div_mult_mod_eq)

lemma sextets3:
  fixes n m :: nat
  assumes "n div 4096 = m div 4096" "n div 64 mod 64 = m div 64 mod 64" "n mod 64 = m mod 64"
  shows "n = m"
proof -
  have "n div 64 div 64 = m div 64 div 64"
    using assms(1) by (simp add: div_mult2_eq [symmetric])
  from this assms(2) have "n div 64 = m div 64" by (rule sextets2)
  from this assms(3) show ?thesis by (rule sextets2)
qed

lemma sextets4:
  fixes n m :: nat
  assumes "n div 262144 = m div 262144" "n div 4096 mod 64 = m div 4096 mod 64"
    "n div 64 mod 64 = m div 64 mod 64" "n mod 64 = m mod 64"
  shows "n = m"
proof -
  have "n div 4096 div 64 = m div 4096 div 64"
    using assms(1) by (simp add: div_mult2_eq [symmetric])
  from this assms(2) have "n div 4096 = m div 4096" by (rule sextets2)
  from this assms(3,4) show ?thesis by (rule sextets3)
qed

lemma enc_distinct: "distinct encodeURL"
  by (simp add: encodeURL_def)

lemma enc_inj:
  assumes "i < 64" and "j < 64" and "enc i = enc j"
  shows "i = j"
proof -
  have l: "length encodeURL = 64"
    by (simp add: encodeURL_def)
  from assms l have "i < length encodeURL" "j < length encodeURL" by simp_all
  with enc_distinct assms(3) show ?thesis
    by (simp add: enc_def nth_eq_iff_index_eq)
qed

lemma byte_bound: "unat (w :: byte) < 256"
  using unsigned_less [where 'a = nat and 'b = 8 and w = w] by simp

lemma divmod256:
  fixes q r :: nat
  assumes "r < 256"
  shows "(q * 256 + r) mod 256 = r" and "(q * 256 + r) div 256 = q"
  using assms by simp_all

lemma split3:
  fixes x y z :: nat
  assumes "z < 256" "y < 256"
  shows "(x * 65536 + y * 256 + z) mod 256 = z"
    and "(x * 65536 + y * 256 + z) div 256 mod 256 = y"
    and "(x * 65536 + y * 256 + z) div 65536 = x"
proof -
  have e: "x * 65536 + y * 256 + z = (x * 256 + y) * 256 + z"
    by simp
  note m = divmod256(1) [OF assms(1), of "x * 256 + y"]
  note d = divmod256(2) [OF assms(1), of "x * 256 + y"]
  note m2 = divmod256(1) [OF assms(2), of x]
  note d2 = divmod256(2) [OF assms(2), of x]
  show "(x * 65536 + y * 256 + z) mod 256 = z"
    unfolding e by (rule m)
  show "(x * 65536 + y * 256 + z) div 256 mod 256 = y"
    unfolding e d by (rule m2)
  have "(x * 65536 + y * 256 + z) div (256 * 256) = (x * 65536 + y * 256 + z) div 256 div 256"
    by (rule div_mult2_eq)
  also have "\<dots> = x"
    unfolding e d by (rule d2)
  finally show "(x * 65536 + y * 256 + z) div 65536 = x"
    by simp
qed

lemma split2:
  fixes x y :: nat
  assumes "y < 256"
  shows "(x * 1024 + y * 4) div 4 mod 256 = y"
    and "(x * 1024 + y * 4) div 1024 = x"
proof -
  have e: "x * 1024 + y * 4 = (x * 256 + y) * 4"
    by simp
  have d: "((x * 256 + y) * 4) div 4 = x * 256 + y"
    by (rule nonzero_mult_div_cancel_right) simp
  note m2 = divmod256(1) [OF assms, of x]
  note d2 = divmod256(2) [OF assms, of x]
  show "(x * 1024 + y * 4) div 4 mod 256 = y"
    unfolding e d by (rule m2)
  have "(x * 1024 + y * 4) div (4 * 256) = (x * 1024 + y * 4) div 4 div 256"
    by (rule div_mult2_eq)
  also have "\<dots> = x"
    unfolding e d by (rule d2)
  finally show "(x * 1024 + y * 4) div 1024 = x"
    by simp
qed

lemma bytes3_inj:
  fixes a b c a' b' c' :: byte
  assumes "unat a * 65536 + unat b * 256 + unat c = unat a' * 65536 + unat b' * 256 + unat c'"
  shows "a = a' \<and> b = b' \<and> c = c'"
proof -
  let ?n = "unat a * 65536 + unat b * 256 + unat c"
  let ?m = "unat a' * 65536 + unat b' * 256 + unat c'"
  from assms have "?n mod 256 = ?m mod 256"
    by (rule arg_cong)
  then have c: "unat c = unat c'"
    by (simp only: split3(1) [OF byte_bound byte_bound])
  from assms have "?n div 256 mod 256 = ?m div 256 mod 256"
    by (rule arg_cong)
  then have b: "unat b = unat b'"
    by (simp only: split3(2) [OF byte_bound byte_bound])
  from assms have "?n div 65536 = ?m div 65536"
    by (rule arg_cong)
  then have a: "unat a = unat a'"
    by (simp only: split3(3) [OF byte_bound byte_bound])
  from a b c show ?thesis by (simp add: word_unat_eq_iff)
qed

lemma bytes2_inj:
  fixes a b a' b' :: byte
  assumes "unat a * 1024 + unat b * 4 = unat a' * 1024 + unat b' * 4"
  shows "a = a' \<and> b = b'"
proof -
  let ?n = "unat a * 1024 + unat b * 4"
  let ?m = "unat a' * 1024 + unat b' * 4"
  from assms have "?n div 4 mod 256 = ?m div 4 mod 256"
    by (rule arg_cong)
  then have b: "unat b = unat b'"
    by (simp only: split2(1) [OF byte_bound])
  from assms have "?n div 1024 = ?m div 1024"
    by (rule arg_cong)
  then have a: "unat a = unat a'"
    by (simp only: split2(2) [OF byte_bound])
  from a b show ?thesis by (simp add: word_unat_eq_iff)
qed

lemma bytes1_inj:
  fixes a a' :: byte
  assumes "unat a * 16 = unat a' * 16"
  shows "a = a'"
  using assms by (simp add: word_unat_eq_iff)

lemma sextet_bounds:
  fixes n :: nat
  shows "n div 64 mod 64 < 64" "n mod 64 < 64" "n div 4096 mod 64 < 64"
  by simp_all

lemma enc_not_pad: "i < 64 \<Longrightarrow> enc i \<noteq> CHR ''=''"
proof -
  assume "i < 64"
  moreover have "length encodeURL = 64" by (simp add: encodeURL_def)
  ultimately have "enc i \<in> set encodeURL"
    by (simp add: enc_def)
  moreover have "CHR ''='' \<notin> set encodeURL"
    by (simp add: encodeURL_def)
  ultimately show ?thesis by auto
qed

lemma n3_bound:
  fixes a b c :: byte
  shows "(unat a * 65536 + unat b * 256 + unat c) div 262144 < 64"
proof -
  have "unat a < 256" "unat b < 256" "unat c < 256"
    by (rule byte_bound)+
  then have "unat a * 65536 + unat b * 256 + unat c < 64 * 262144"
    by simp
  then show ?thesis
    by (simp only: less_mult_imp_div_less)
qed

lemma n2_bound:
  fixes a b :: byte
  shows "(unat a * 1024 + unat b * 4) div 4096 < 64"
proof -
  have "unat a < 256" "unat b < 256"
    by (rule byte_bound)+
  then have "unat a * 1024 + unat b * 4 < 64 * 4096"
    by simp
  then show ?thesis
    by (simp only: less_mult_imp_div_less)
qed

lemma n1_bound:
  fixes a :: byte
  shows "(unat a * 16) div 64 < 64"
proof -
  have "unat a < 256"
    by (rule byte_bound)
  then have "unat a * 16 < 64 * 64"
    by simp
  then show ?thesis
    by (simp only: less_mult_imp_div_less)
qed


lemma quad_inj:
  fixes n m :: nat
  assumes "n div 262144 < 64" "m div 262144 < 64"
    and "enc (n div 262144) = enc (m div 262144)"
    and "enc (n div 4096 mod 64) = enc (m div 4096 mod 64)"
    and "enc (n div 64 mod 64) = enc (m div 64 mod 64)"
    and "enc (n mod 64) = enc (m mod 64)"
  shows "n = m"
proof (rule sextets4)
  show "n div 262144 = m div 262144"
    using assms(1,2,3) by (rule enc_inj)
  show "n div 4096 mod 64 = m div 4096 mod 64"
    using sextet_bounds(3) sextet_bounds(3) assms(4) by (rule enc_inj)
  show "n div 64 mod 64 = m div 64 mod 64"
    using sextet_bounds(1) sextet_bounds(1) assms(5) by (rule enc_inj)
  show "n mod 64 = m mod 64"
    using sextet_bounds(2) sextet_bounds(2) assms(6) by (rule enc_inj)
qed

lemma triple_inj:
  fixes n m :: nat
  assumes "n div 4096 < 64" "m div 4096 < 64"
    and "enc (n div 4096) = enc (m div 4096)"
    and "enc (n div 64 mod 64) = enc (m div 64 mod 64)"
    and "enc (n mod 64) = enc (m mod 64)"
  shows "n = m"
proof (rule sextets3)
  show "n div 4096 = m div 4096"
    using assms(1,2,3) by (rule enc_inj)
  show "n div 64 mod 64 = m div 64 mod 64"
    using sextet_bounds(1) sextet_bounds(1) assms(4) by (rule enc_inj)
  show "n mod 64 = m mod 64"
    using sextet_bounds(2) sextet_bounds(2) assms(5) by (rule enc_inj)
qed

lemma pair_inj:
  fixes n m :: nat
  assumes "n div 64 < 64" "m div 64 < 64"
    and "enc (n div 64) = enc (m div 64)"
    and "enc (n mod 64) = enc (m mod 64)"
  shows "n = m"
proof (rule sextets2)
  show "n div 64 = m div 64"
    using assms(1,2,3) by (rule enc_inj)
  show "n mod 64 = m mod 64"
    using sextet_bounds(2) sextet_bounds(2) assms(4) by (rule enc_inj)
qed

lemma EncodeToString_inj:
  "length xs = length ys \<Longrightarrow> EncodeToString xs = EncodeToString ys \<Longrightarrow> xs = ys"
proof (induction xs arbitrary: ys rule: EncodeToString.induct)
  case (1 a b c rest)
  from "1.prems"(1) obtain a' b' c' rest' where ys: "ys = a' # b' # c' # rest'"
    by (cases ys rule: EncodeToString.cases) simp_all
  let ?n = "unat a * 65536 + unat b * 256 + unat c"
  let ?m = "unat a' * 65536 + unat b' * 256 + unat c'"
  from "1.prems"(2) have "EncodeToString (a # b # c # rest) = EncodeToString (a' # b' # c' # rest')"
    by (simp only: ys)
  then have e: "enc (?n div 262144) = enc (?m div 262144)"
      "enc (?n div 4096 mod 64) = enc (?m div 4096 mod 64)"
      "enc (?n div 64 mod 64) = enc (?m div 64 mod 64)"
      "enc (?n mod 64) = enc (?m mod 64)"
    and r: "EncodeToString rest = EncodeToString rest'"
    by (simp_all only: EncodeToString.simps Let_def list.inject)
  from n3_bound n3_bound e have "?n = ?m"
    by (rule quad_inj)
  then have abc: "a = a' \<and> b = b' \<and> c = c'"
    by (rule bytes3_inj)
  from "1.prems"(1) have "length rest = length rest'"
    by (simp add: ys)
  from this r have "rest = rest'"
    by (rule "1.IH" [OF refl])
  with abc ys show ?case by simp
next
  case (2 a b)
  from "2.prems"(1) obtain a' b' where ys: "ys = [a', b']"
    by (cases ys rule: EncodeToString.cases) simp_all
  let ?n = "unat a * 1024 + unat b * 4"
  let ?m = "unat a' * 1024 + unat b' * 4"
  from "2.prems"(2) have "EncodeToString [a, b] = EncodeToString [a', b']"
    by (simp only: ys)
  then have e: "enc (?n div 4096) = enc (?m div 4096)"
      "enc (?n div 64 mod 64) = enc (?m div 64 mod 64)"
      "enc (?n mod 64) = enc (?m mod 64)"
    by (simp_all only: EncodeToString.simps Let_def list.inject)
  from n2_bound n2_bound e have "?n = ?m"
    by (rule triple_inj)
  then have "a = a' \<and> b = b'"
    by (rule bytes2_inj)
  with ys show ?case by simp
next
  case (3 a)
  from "3.prems"(1) obtain a' where ys: "ys = [a']"
    by (cases ys rule: EncodeToString.cases) simp_all
  from "3.prems"(2) have "EncodeToString [a] = EncodeToString [a']"
    by (simp only: ys)
  then have e: "enc (unat a * 16 div 64) = enc (unat a' * 16 div 64)"
      "enc (unat a * 16 mod 64) = enc (unat a' * 16 mod 64)"
    by (simp_all only: EncodeToString.simps Let_def list.inject)
  from n1_bound n1_bound e have "unat a * 16 = unat a' * 16"
    by (rule pair_inj)
  then have "a = a'"
    by (rule bytes1_inj)
  with ys show ?case by simp
next
  case 4
  then show ?case by simp
qed

lemma rand_Read_length: "length (fst (rand_Read e n)) = n"
  by (simp add: rand_Read_def)

lemma GenerateTokens_row:
  assumes "GenerateTokens bc cfg e d user = (Inr pair, d')"
  shows "GenerateRefreshToken e = Inr (RefreshToken pair)
       \<and> (\<exists>h. GenerateFromPassword bc (bcrypt_salt e) (RefreshToken pair) = Some h
              \<and> d' = d\<lparr>refresh_tokens := refresh_tokens d @
                         [\<lparr>RefreshToken.ID = gen_random_uuid e,
                           RefreshToken.UserID = User.ID user,
                           TokenHash = h,
                           RefreshToken.ExpiresAt = time_Now e + JWTRefreshTokenExpiry cfg,
                           RefreshToken.CreatedAt = time_Now e,
                           RevokedAt = None\<rparr>]\<rparr>)"
  using assms
  by (auto simp: GenerateTokens_def HashRefreshToken_def Let_def
        split: sum.splits option.splits if_splits)

lemma GenerateRefreshToken_bytes:
  "GenerateRefreshToken e = Inr tok \<Longrightarrow> tok = EncodeToString (fst (rand_Read e 32))"
  by (auto simp: GenerateRefreshToken_def split: prod.splits if_splits)

lemma match_loop_cong:
  assumes "\<forall>rt \<in> set rows. CompareRefreshToken bc (TokenHash rt) tok1
                              = CompareRefreshToken bc (TokenHash rt) tok2"
  shows "match_loop bc e rows tok1 = match_loop bc e rows tok2"
  using assms by (induction rows) simp_all

lemma select_valid_subset:
  "set (select_valid_refresh_tokens ts t) \<subseteq> set ts"
  by (auto simp: select_valid_refresh_tokens_def)

lemma presented_token_only_compared:
  assumes "\<forall>rt \<in> set (refresh_tokens d). CompareRefreshToken bc (TokenHash rt) tok1
                                         = CompareRefreshToken bc (TokenHash rt) tok2"
  shows "RefreshAccessToken bc cfg e d tok1 = RefreshAccessToken bc cfg e d tok2"
    and "RevokeRefreshToken bc e d tok1 = RevokeRefreshToken bc e d tok2"
proof -
  let ?rows = "select_valid_refresh_tokens (refresh_tokens d) (time_Now e)"
  from assms select_valid_subset [of "refresh_tokens d" "time_Now e"]
  have "\<forall>rt \<in> set ?rows. CompareRefreshToken bc (TokenHash rt) tok1
                              = CompareRefreshToken bc (TokenHash rt) tok2"
    by blast
  then have m: "match_loop bc e ?rows tok1 = match_loop bc e ?rows tok2"
    by (rule match_loop_cong)
  show "RefreshAccessToken bc cfg e d tok1 = RefreshAccessToken bc cfg e d tok2"
    by (simp add: RefreshAccessToken_def m)
  show "RevokeRefreshToken bc e d tok1 = RevokeRefreshToken bc e d tok2"
    by (simp add: RevokeRefreshToken_def revoke_match_loop_eq m)
qed

end
